theory Spec2Isabelle
  imports Complex_Main
begin

section \<open>Python values and dictionaries\<close>

text \<open>
  The backend passes data around as Python dictionaries decoded from JSON and as
  ORM rows whose attributes are assigned dynamically. A value is therefore one of
  the shapes such a dictionary can hold: \<open>None\<close>, a boolean (which Python
  compares and counts as the integer 0 or 1), an integer, a float (a finite
  float is a rational number; the code only compares floats with integer literals
  and never computes with them), a string, a JSON array, a nested JSON object, or a
  \<open>datetime\<close> (seconds since an epoch), which only the server produces.
\<close>

datatype val = VNone | VBool bool | VInt int | VFloat rat | VStr string | VTime int
  | VList "val list" | VDict "(string \<times> val) list"

text \<open>The exceptions the modelled code can raise.\<close>

datatype error = TypeError | KeyError | AttributeError | ValueError | OverflowError
  | IntegrityError | StatementError | PendingRollbackError | DuplicateKeyError

type_synonym pydict = "string \<rightharpoonup> val"

text \<open>\<open>d.get(key, default)\<close>\<close>

definition dict_get :: "pydict \<Rightarrow> string \<Rightarrow> val \<Rightarrow> val" where
  "dict_get d k dflt = (case d k of None \<Rightarrow> dflt | Some v \<Rightarrow> v)"

text \<open>\<open>d[key]\<close>, which raises \<open>KeyError\<close> on a missing key.\<close>

definition dict_item :: "pydict \<Rightarrow> string \<Rightarrow> error + val" where
  "dict_item d k = (case d k of None \<Rightarrow> Inl KeyError | Some v \<Rightarrow> Inr v)"

text \<open>
  \<open>v > n\<close> for an integer literal \<open>n\<close>: numbers compare by value, every other
  operand raises \<open>TypeError\<close>.
\<close>

fun py_gt :: "val \<Rightarrow> int \<Rightarrow> error + bool" where
  "py_gt (VInt i) n = Inr (i > n)"
| "py_gt (VBool b) n = Inr ((if b then 1 else 0) > n)"
| "py_gt (VFloat r) n = Inr (r > of_int n)"
| "py_gt v n = Inl TypeError"

text \<open>Truthiness, as \<open>not v\<close> and \<open>if v\<close> test it.\<close>

fun py_truthy :: "val \<Rightarrow> bool" where
  "py_truthy VNone = False"
| "py_truthy (VBool b) = b"
| "py_truthy (VInt i) = (i \<noteq> 0)"
| "py_truthy (VFloat r) = (r \<noteq> 0)"
| "py_truthy (VStr s) = (s \<noteq> [])"
| "py_truthy (VTime t) = True"
| "py_truthy (VList vs) = (vs \<noteq> [])"
| "py_truthy (VDict kvs) = (kvs \<noteq> [])"

text \<open>\<open>v == n\<close> for an integer literal \<open>n\<close>: never raises.\<close>

fun py_eq_int :: "val \<Rightarrow> int \<Rightarrow> bool" where
  "py_eq_int (VInt i) n = (i = n)"
| "py_eq_int (VBool b) n = ((if b then 1 else 0) = n)"
| "py_eq_int (VFloat r) n = (r = of_int n)"
| "py_eq_int v n = False"

section \<open>Risk scoring\<close>

text \<open>
  The pattern \<open>if v > hi: score += p_hi  elif v > lo: score += p_lo\<close> of
  \<open>calculate_stroke_risk\<close>; the second comparison runs only when the first is false.
\<close>

definition if_elif_gt :: "val \<Rightarrow> int \<Rightarrow> int \<Rightarrow> int \<Rightarrow> int \<Rightarrow> error + int" where
  "if_elif_gt v hi p_hi lo p_lo =
     (case py_gt v hi of
        Inl e \<Rightarrow> Inl e
      | Inr True \<Rightarrow> Inr p_hi
      | Inr False \<Rightarrow>
          (case py_gt v lo of
             Inl e \<Rightarrow> Inl e
           | Inr True \<Rightarrow> Inr p_lo
           | Inr False \<Rightarrow> Inr 0))"

text \<open>
  \<open>PatientService.calculate_stroke_risk\<close> (services/patient_service.py); the
  methods of the same name in models/patient.py and models/patient_mongodb.py have
  the same body.
\<close>

definition calculate_stroke_risk :: "pydict \<Rightarrow> error + int" where
  "calculate_stroke_risk patient_data =
     (case if_elif_gt (dict_get patient_data ''age'' (VInt 0)) 60 30 45 15 of
        Inl e \<Rightarrow> Inl e
      | Inr age_pts \<Rightarrow>
     let hyp_pts = (if py_eq_int (dict_get patient_data ''hypertension'' (VInt 0)) 1
                    then 25 else 0);
         heart_pts = (if py_eq_int (dict_get patient_data ''heart_disease'' (VInt 0)) 1
                      then 20 else 0)
     in
     (case if_elif_gt (dict_get patient_data ''avg_glucose_level'' (VInt 0)) 150 15 120 8 of
        Inl e \<Rightarrow> Inl e
      | Inr glucose_pts \<Rightarrow>
     (case if_elif_gt (dict_get patient_data ''bmi'' (VInt 0)) 30 10 25 5 of
        Inl e \<Rightarrow> Inl e
      | Inr bmi_pts \<Rightarrow>
     let smoking_status = dict_get patient_data ''smoking_status'' (VStr ''Unknown'');
         smoke_pts = (if smoking_status = VStr ''Smokes'' then 10
                      else if smoking_status = VStr ''Formerly smoked'' then 5 else 0);
         stroke_pts = (if py_eq_int (dict_get patient_data ''stroke'' (VInt 0)) 1
                       then 30 else 0)
     in Inr (min (age_pts + hyp_pts + heart_pts + glucose_pts + bmi_pts
                  + smoke_pts + stroke_pts) 100))))"

text \<open>\<open>PatientService.get_risk_level\<close>: the thresholds are literals.\<close>

definition get_risk_level :: "int \<Rightarrow> string" where
  "get_risk_level risk_score =
     (if risk_score \<ge> 50 then ''high''
      else if risk_score \<ge> 25 then ''medium''
      else ''low'')"

text \<open>
  \<open>PatientRecord.get_risk_level\<close> (models/patient.py) reads the thresholds from
  \<open>Config\<close> (config.py), whose class attributes are the defaults 50 and 25.
\<close>

definition STROKE_RISK_THRESHOLD_HIGH :: int where
  "STROKE_RISK_THRESHOLD_HIGH = 50"

definition STROKE_RISK_THRESHOLD_MEDIUM :: int where
  "STROKE_RISK_THRESHOLD_MEDIUM = 25"

definition PatientRecord_get_risk_level :: "int \<Rightarrow> string" where
  "PatientRecord_get_risk_level risk_score =
     (if risk_score \<ge> STROKE_RISK_THRESHOLD_HIGH then ''high''
      else if risk_score \<ge> STROKE_RISK_THRESHOLD_MEDIUM then ''medium''
      else ''low'')"

subsection \<open>The scoring table as the specification words it\<close>

text \<open>The number a value stands for, when it is one.\<close>

fun num_val :: "val \<Rightarrow> rat option" where
  "num_val (VInt i) = Some (of_int i)"
| "num_val (VBool b) = Some (if b then 1 else 0)"
| "num_val (VFloat r) = Some r"
| "num_val v = None"

text \<open>
  The inputs the table is about: \<open>age\<close>, \<open>avg_glucose_level\<close> and \<open>bmi\<close> are
  numbers when they are present. The documented domain (age 0 to 120, glucose 50 to
  300, bmi 10 to 60) lies inside it.
\<close>

definition numeric_fields :: "pydict \<Rightarrow> bool" where
  "numeric_fields pd =
     list_all (\<lambda>k. case pd k of None \<Rightarrow> True | Some v \<Rightarrow> num_val v \<noteq> None)
       [''age'', ''avg_glucose_level'', ''bmi'']"

text \<open>An absent field contributes its no-risk value.\<close>

definition spec_band :: "pydict \<Rightarrow> string \<Rightarrow> (rat \<Rightarrow> int) \<Rightarrow> int" where
  "spec_band pd k pts =
     (case pd k of
        None \<Rightarrow> 0
      | Some v \<Rightarrow> (case num_val v of None \<Rightarrow> 0 | Some x \<Rightarrow> pts x))"

definition spec_flag :: "pydict \<Rightarrow> string \<Rightarrow> int \<Rightarrow> int" where
  "spec_flag pd k pts =
     (case pd k of
        None \<Rightarrow> 0
      | Some v \<Rightarrow> (if num_val v = Some 1 then pts else 0))"

definition spec_age_points :: "rat \<Rightarrow> int" where
  "spec_age_points age = (if age > 60 then 30 else if 45 < age \<and> age \<le> 60 then 15 else 0)"

definition spec_glucose_points :: "rat \<Rightarrow> int" where
  "spec_glucose_points level =
     (if level > 150 then 15 else if 120 < level \<and> level \<le> 150 then 8 else 0)"

definition spec_bmi_points :: "rat \<Rightarrow> int" where
  "spec_bmi_points bmi = (if bmi > 30 then 10 else if 25 < bmi \<and> bmi \<le> 30 then 5 else 0)"

definition spec_smoking_points :: "pydict \<Rightarrow> int" where
  "spec_smoking_points pd =
     (if pd ''smoking_status'' = Some (VStr ''Smokes'') then 10
      else if pd ''smoking_status'' = Some (VStr ''Formerly smoked'') then 5
      else 0)"

definition spec_score :: "pydict \<Rightarrow> int" where
  "spec_score pd =
     min 100
       (spec_band pd ''age'' spec_age_points
        + spec_flag pd ''hypertension'' 25
        + spec_flag pd ''heart_disease'' 20
        + spec_band pd ''avg_glucose_level'' spec_glucose_points
        + spec_band pd ''bmi'' spec_bmi_points
        + spec_smoking_points pd
        + spec_flag pd ''stroke'' 30)"

text \<open>The order of the tiers: low below medium below high.\<close>

definition tier_rank :: "string \<Rightarrow> nat" where
  "tier_rank t = (if t = ''high'' then 2 else if t = ''medium'' then 1 else 0)"

text \<open>
  The first scenario of the specification: age 67, hypertension, glucose 145,
  bmi 28.1, a former smoker, no prior stroke.
\<close>

definition scenario_patient :: pydict where
  "scenario_patient = map_of
     [(''age'', VInt 67), (''hypertension'', VInt 1), (''heart_disease'', VInt 0),
      (''avg_glucose_level'', VFloat 145), (''bmi'', VFloat (281 / 10)),
      (''smoking_status'', VStr ''Formerly smoked''), (''stroke'', VInt 0)]"

section \<open>Library functions\<close>

text \<open>
  What the code calls in the standard library, the ORM and other packages is taken
  as a parameter: the theorems below hold for every choice of these functions.
  \<^item> \<open>py_int s\<close> is \<open>int(s)\<close> on a string, \<open>None\<close> when it raises \<open>ValueError\<close>;
  \<^item> \<open>py_float s\<close> is \<open>float(s)\<close> on a string, likewise (the strings that
    \<open>float\<close> reads as infinities or not-a-number are outside the model);
  \<^item> \<open>py_str v\<close> is \<open>str(v)\<close> and \<open>exc_str e\<close> is \<open>str(e)\<close> of an exception;
  \<^item> \<open>py_strip s\<close> is \<open>s.strip()\<close>;
  \<^item> \<open>isoformat t\<close> is \<open>datetime.isoformat()\<close>;
  \<^item> \<open>orm_attr k\<close> holds of the attribute names an ORM object has from its base
    class (\<open>query\<close>, \<open>metadata\<close>, \<open>_sa_instance_state\<close>, ...), beside its columns
    and its methods;
  \<^item> \<open>setattr_other k v\<close> is what \<open>setattr(obj, k, v)\<close> does for such a name:
    \<open>Kept\<close> when it only puts an attribute on the instance, \<open>Detached\<close> when it
    overwrites the state the ORM keeps on the object (\<open>_sa_instance_state\<close>), after
    which every assignment to a column raises \<open>AttributeError\<close>, and \<open>Refused e\<close>
    when the assignment itself raises \<open>e\<close> (\<open>__class__\<close>);
  \<^item> \<open>db_bind c v\<close> is what becomes of the value \<open>v\<close> that a flush writes to the
    column \<open>c\<close>: \<open>Bound w\<close> when the column then holds \<open>w\<close> (SQLite stores a
    value under the type affinity of the column, so the integer 30 in a \<open>FLOAT\<close>
    column is read back as 30.0 and the text \<open>'1'\<close> in an \<open>INTEGER\<close> column as 1),
    \<open>BindError\<close> when the column type or the driver rejects the value (an array, an
    object, anything but a \<open>datetime\<close> or \<open>None\<close> for a \<open>DateTime\<close> column), which the
    ORM raises as \<open>StatementError\<close>, and \<open>BindOverflow\<close> when the driver raises
    \<open>OverflowError\<close> (an integer beyond 64 bits);
  \<^item> \<open>sanitize_str s\<close> is the chain of \<open>re.sub\<close> calls and the final \<open>strip()\<close> of
    \<open>sanitize_input\<close> (utils/security.py);
  \<^item> \<open>validate_email s\<close> is the \<open>re.match\<close> of utils/security.py;
  \<^item> \<open>generate_password_hash\<close> and \<open>check_password_hash\<close> are bcrypt's;
  \<^item> \<open>jwt_encode payload\<close> is \<open>jwt.encode\<close> with the application's secret key;
  \<^item> \<open>strptime_date s\<close> is \<open>datetime.strptime(s, '%Y-%m-%d').date()\<close> as a day
    number and \<open>strptime_time s\<close> is \<open>datetime.strptime(s, '%H:%M').time()\<close>, both
    \<open>None\<close> when \<open>strptime\<close> raises \<open>ValueError\<close>;
  \<^item> \<open>object_id s\<close> holds when \<open>ObjectId(s)\<close> accepts the string.
\<close>

datatype attr_effect = Kept | Detached | Refused error

datatype bind_result = Bound val | BindError | BindOverflow

record env =
  py_int :: "string \<Rightarrow> int option"
  py_float :: "string \<Rightarrow> rat option"
  py_str :: "val \<Rightarrow> string"
  exc_str :: "error \<Rightarrow> string"
  py_strip :: "string \<Rightarrow> string"
  isoformat :: "int \<Rightarrow> string"
  orm_attr :: "string \<Rightarrow> bool"
  setattr_other :: "string \<Rightarrow> val \<Rightarrow> attr_effect"
  db_bind :: "string \<Rightarrow> val \<Rightarrow> bind_result"
  sanitize_str :: "string \<Rightarrow> string"
  validate_email :: "string \<Rightarrow> bool"
  generate_password_hash :: "string \<Rightarrow> string"
  check_password_hash :: "string \<Rightarrow> string \<Rightarrow> bool"
  jwt_encode :: "(string \<times> val) list \<Rightarrow> string"
  strptime_date :: "string \<Rightarrow> int option"
  strptime_time :: "string \<Rightarrow> int option"
  object_id :: "string \<Rightarrow> bool"

text \<open>
  \<open>sanitize_input\<close> (utils/security.py): a falsy input is returned as it is; any
  other input is turned into a string and cleaned.
\<close>

definition sanitized :: "env \<Rightarrow> val \<Rightarrow> string" where
  "sanitized E input_string = sanitize_str E (py_str E input_string)"

definition sanitize_input :: "env \<Rightarrow> val \<Rightarrow> val" where
  "sanitize_input E input_string =
     (if \<not> py_truthy input_string then input_string
      else VStr (sanitized E input_string))"

section \<open>Patient records\<close>

text \<open>
  A row of the table \<open>patients\<close> (models/patient_sqllite.py) is an ORM object whose
  attributes are read and assigned by name, so it is a function from column names to
  values. A column that was never assigned holds \<open>None\<close>.
\<close>

type_synonym patient_row = "string \<Rightarrow> val"

definition patient_columns :: "string list" where
  "patient_columns =
     [''id'', ''gender'', ''age'', ''hypertension'', ''heart_disease'', ''ever_married'',
      ''work_type'', ''Residence_type'', ''avg_glucose_level'', ''bmi'',
      ''smoking_status'', ''stroke'', ''stroke_risk'', ''risk_level'', ''created_by'',
      ''assigned_doctor_id'', ''created_at'', ''updated_at'']"

text \<open>The columns declared \<open>nullable=False\<close>.\<close>

definition not_null_columns :: "string list" where
  "not_null_columns =
     [''gender'', ''age'', ''hypertension'', ''heart_disease'', ''ever_married'',
      ''work_type'', ''Residence_type'', ''avg_glucose_level'', ''bmi'',
      ''smoking_status'', ''stroke'']"

definition row_of :: "(string \<times> val) list \<Rightarrow> patient_row" where
  "row_of kvs = (\<lambda>k. case map_of kvs k of None \<Rightarrow> VNone | Some v \<Rightarrow> v)"

text \<open>
  \<open>PatientSQLite.to_dict\<close>: the two timestamps are rendered with \<open>isoformat()\<close>,
  which only a \<open>datetime\<close> has.
\<close>

definition PatientSQLite_to_dict :: "env \<Rightarrow> patient_row \<Rightarrow> error + pydict" where
  "PatientSQLite_to_dict E self =
     (case self ''created_at'' of
        VTime c \<Rightarrow>
          (case self ''updated_at'' of
             VTime u \<Rightarrow>
               Inr (map_of
                 [(''id'', self ''id''),
                  (''gender'', self ''gender''),
                  (''age'', self ''age''),
                  (''hypertension'', self ''hypertension''),
                  (''heart_disease'', self ''heart_disease''),
                  (''ever_married'', self ''ever_married''),
                  (''work_type'', self ''work_type''),
                  (''Residence_type'', self ''Residence_type''),
                  (''avg_glucose_level'', self ''avg_glucose_level''),
                  (''bmi'', self ''bmi''),
                  (''smoking_status'', self ''smoking_status''),
                  (''stroke'', self ''stroke''),
                  (''stroke_risk'', self ''stroke_risk''),
                  (''risk_level'', self ''risk_level''),
                  (''created_by'', self ''created_by''),
                  (''assigned_doctor_id'', self ''assigned_doctor_id''),
                  (''created_at'', VStr (isoformat E c)),
                  (''updated_at'', VStr (isoformat E u))])
           | _ \<Rightarrow> Inl AttributeError)
      | _ \<Rightarrow> Inl AttributeError)"

text \<open>
  \<open>hasattr(patient, key)\<close>: true of the columns, of the method \<open>to_dict\<close> the class
  defines, and of what the ORM base class provides. \<open>setattr\<close> on a column assigns
  it, which needs the ORM state of the object: once that is overwritten the
  assignment raises \<open>AttributeError\<close> and leaves the row alone. \<open>setattr\<close> on
  \<open>to_dict\<close> puts the value in the place of the method; on any other name it does
  what \<open>setattr_other\<close> says. \<open>attached\<close> tells whether the ORM state is intact.
\<close>

definition hasattr_patient :: "env \<Rightarrow> string \<Rightarrow> bool" where
  "hasattr_patient E key =
     (key \<in> set patient_columns \<or> key = ''to_dict'' \<or> orm_attr E key)"

definition setattr_patient ::
  "env \<Rightarrow> bool \<Rightarrow> patient_row \<Rightarrow> string \<Rightarrow> val \<Rightarrow> error + (bool \<times> patient_row)" where
  "setattr_patient E attached patient key v =
     (if key \<in> set patient_columns
      then (if attached then Inr (attached, patient(key := v)) else Inl AttributeError)
      else if key = ''to_dict'' then Inr (attached, patient)
      else (case setattr_other E key v of
              Kept \<Rightarrow> Inr (attached, patient)
            | Detached \<Rightarrow> Inr (False, patient)
            | Refused e \<Rightarrow> Inl e))"

text \<open>
  The loop \<open>for key, value in update_data.items(): if hasattr(patient, key):
  setattr(patient, key, value)\<close>.
\<close>

fun setattr_items ::
  "env \<Rightarrow> (string \<times> val) list \<Rightarrow> bool \<Rightarrow> patient_row \<Rightarrow> error + (bool \<times> patient_row)" where
  "setattr_items E [] attached patient = Inr (attached, patient)"
| "setattr_items E ((key, v) # items) attached patient =
     (if hasattr_patient E key
      then (case setattr_patient E attached patient key v of
              Inl e \<Rightarrow> Inl e
            | Inr (attached', patient') \<Rightarrow> setattr_items E items attached' patient')
      else setattr_items E items attached patient)"

text \<open>
  What a flush does with a patient row. The values of the columns it writes
  (\<open>written\<close>) are bound in the order of the columns; the first that cannot be bound
  raises, and the row then holds the others as the database stores them. After
  that the database checks the row: the primary key is an integer no other row has,
  and the \<open>nullable=False\<close> columns are not \<open>None\<close>. \<open>others\<close> are the other rows of
  the table. The result is the row as stored.
\<close>

fun bind_columns ::
  "env \<Rightarrow> (string \<Rightarrow> bool) \<Rightarrow> string list \<Rightarrow> patient_row \<Rightarrow> error + patient_row" where
  "bind_columns E written [] p = Inr p"
| "bind_columns E written (c # cs) p =
     (if written c
      then (case db_bind E c (p c) of
              Bound v \<Rightarrow> bind_columns E written cs (p(c := v))
            | BindError \<Rightarrow> Inl StatementError
            | BindOverflow \<Rightarrow> Inl OverflowError)
      else bind_columns E written cs p)"

definition flush_patient ::
  "env \<Rightarrow> (string \<Rightarrow> bool) \<Rightarrow> patient_row list \<Rightarrow> patient_row \<Rightarrow> error + patient_row" where
  "flush_patient E written others p =
     (case bind_columns E written patient_columns p of
        Inl e \<Rightarrow> Inl e
      | Inr stored \<Rightarrow>
          if (case stored ''id'' of VInt i \<Rightarrow> False | _ \<Rightarrow> True)
             \<or> list_ex (\<lambda>q. q ''id'' = stored ''id'') others
             \<or> list_ex (\<lambda>c. stored c = VNone) not_null_columns
          then Inl IntegrityError
          else Inr stored)"

text \<open>
  \<open>PatientSQLite.query.get(patient_id)\<close>: the row with that primary key, and the
  table with that row replaced when the session commits a change to it.
\<close>

definition query_get :: "patient_row list \<Rightarrow> val \<Rightarrow> patient_row option" where
  "query_get tbl patient_id = find (\<lambda>p. p ''id'' = patient_id) tbl"

fun replace_row :: "val \<Rightarrow> patient_row \<Rightarrow> patient_row list \<Rightarrow> patient_row list" where
  "replace_row patient_id p' [] = []"
| "replace_row patient_id p' (p # tbl) =
     (if p ''id'' = patient_id then p' # tbl else p # replace_row patient_id p' tbl)"

text \<open>
  The key SQLite gives a new row of an \<open>INTEGER PRIMARY KEY\<close> column: one more
  than the largest key in the table.
\<close>

definition next_id :: "patient_row list \<Rightarrow> int" where
  "next_id tbl = 1 + fold (\<lambda>p m. case p ''id'' of VInt i \<Rightarrow> max i m | _ \<Rightarrow> m) tbl 0"

text \<open>\<open>PatientService._coerce_sqlite_id\<close>: \<open>int(patient_id)\<close> when that works.\<close>

fun coerce_sqlite_id :: "env \<Rightarrow> val \<Rightarrow> val" where
  "coerce_sqlite_id E (VStr s) = (case py_int E s of None \<Rightarrow> VStr s | Some i \<Rightarrow> VInt i)"
| "coerce_sqlite_id E (VInt i) = VInt i"
| "coerce_sqlite_id E (VBool b) = VInt (if b then 1 else 0)"
| "coerce_sqlite_id E (VFloat r) = VInt (if r \<ge> 0 then \<lfloor>r\<rfloor> else \<lceil>r\<rceil>)"
| "coerce_sqlite_id E v = v"

text \<open>\<open>d[k]\<close> for each key of a list in turn; the first missing key raises.\<close>

fun dict_items :: "pydict \<Rightarrow> string list \<Rightarrow> error + (string \<times> val) list" where
  "dict_items d [] = Inr []"
| "dict_items d (k # ks) =
     (case dict_item d k of
        Inl e \<Rightarrow> Inl e
      | Inr v \<Rightarrow> (case dict_items d ks of Inl e \<Rightarrow> Inl e | Inr kvs \<Rightarrow> Inr ((k, v) # kvs)))"

text \<open>
  \<open>PatientService._create_patient_sqlite\<close>: the risk fields are computed first,
  the eleven medical fields are read with \<open>patient_data[...]\<close>, the two references
  with \<open>.get\<close>; the row gets its key and both timestamps (the column defaults) when it
  is flushed, and the insert writes every column. The result is the new key and the
  new table.
\<close>

definition create_patient_sqlite ::
  "env \<Rightarrow> int \<Rightarrow> patient_row list \<Rightarrow> pydict \<Rightarrow> error + (val \<times> patient_row list)" where
  "create_patient_sqlite E now tbl patient_data =
     (case calculate_stroke_risk patient_data of
        Inl e \<Rightarrow> Inl e
      | Inr stroke_risk \<Rightarrow>
     let risk_level = get_risk_level stroke_risk in
     (case dict_items patient_data
             [''gender'', ''age'', ''hypertension'', ''heart_disease'', ''ever_married'',
              ''work_type'', ''Residence_type'', ''avg_glucose_level'', ''bmi'',
              ''smoking_status'', ''stroke''] of
        Inl e \<Rightarrow> Inl e
      | Inr medical \<Rightarrow>
     let patient = row_of
           (medical @
            [(''stroke_risk'', VInt stroke_risk),
             (''risk_level'', VStr risk_level),
             (''created_by'', dict_get patient_data ''created_by'' VNone),
             (''assigned_doctor_id'', dict_get patient_data ''assigned_doctor_id'' VNone),
             (''id'', VInt (next_id tbl)),
             (''created_at'', VTime now),
             (''updated_at'', VTime now)])
     in
     (case flush_patient E (\<lambda>c. True) tbl patient of
        Inl e \<Rightarrow> Inl e
      | Inr stored \<Rightarrow> Inr (stored ''id'', tbl @ [stored]))))"

text \<open>
  The document store for patients (models/patient_mongodb.py) is a placeholder:
  \<open>is_connected\<close> returns false and \<open>create_patient\<close> returns \<open>None\<close>. The
  service uses it when the configuration flag \<open>USE_MONGODB\<close> is set and it is
  connected.
\<close>

definition PatientRecordMongo_is_connected :: bool where
  "PatientRecordMongo_is_connected = False"

definition use_mongodb :: "bool \<Rightarrow> bool" where
  "use_mongodb USE_MONGODB = (USE_MONGODB \<and> PatientRecordMongo_is_connected)"

definition create_patient ::
  "env \<Rightarrow> bool \<Rightarrow> int \<Rightarrow> patient_row list \<Rightarrow> pydict
     \<Rightarrow> error + (val \<times> patient_row list)" where
  "create_patient E USE_MONGODB now tbl patient_data =
     (if use_mongodb USE_MONGODB then Inr (VNone, tbl)
      else create_patient_sqlite E now tbl patient_data)"

text \<open>\<open>patient_data.update(update_data)\<close>\<close>

definition dict_update :: "pydict \<Rightarrow> (string \<times> val) list \<Rightarrow> pydict" where
  "dict_update d kvs = fold (\<lambda>(k, v) m. m(k \<mapsto> v)) kvs d"

text \<open>The fields whose presence in a patch triggers the recomputation.\<close>

definition risk_fields :: "string list" where
  "risk_fields = [''age'', ''hypertension'', ''heart_disease'', ''avg_glucose_level'',
                  ''bmi'', ''smoking_status'']"

text \<open>
  \<open>PatientService._update_patient_sqlite\<close> (and \<open>PatientRecord.update_patient\<close>,
  which differs only in not coercing the key). The patch is the list of the items of
  \<open>update_data\<close>. A patch that assigned \<open>to_dict\<close> has put a value in the place of
  the method, so the call \<open>patient.to_dict()\<close> raises. The assignments to
  \<open>stroke_risk\<close>, \<open>risk_level\<close> and \<open>updated_at\<close> raise like those of the loop when
  the ORM state was overwritten. An exception leaves the function before the commit,
  so nothing is stored. The commit writes the columns whose value has changed. The
  result is the returned flag and the new table.
\<close>

definition update_patient_sqlite ::
  "env \<Rightarrow> int \<Rightarrow> patient_row list \<Rightarrow> val \<Rightarrow> (string \<times> val) list
     \<Rightarrow> error + (bool \<times> patient_row list)" where
  "update_patient_sqlite E now tbl patient_id update_data =
     (let pid = coerce_sqlite_id E patient_id in
      case query_get tbl pid of
        None \<Rightarrow> Inr (False, tbl)
      | Some patient \<Rightarrow>
     (case setattr_items E update_data True patient of
        Inl e \<Rightarrow> Inl e
      | Inr (attached, patient1) \<Rightarrow>
     (case (if list_ex (\<lambda>field. field \<in> fst ` set update_data) risk_fields
            then (if ''to_dict'' \<in> fst ` set update_data then Inl TypeError
                  else case PatientSQLite_to_dict E patient1 of
                         Inl e \<Rightarrow> Inl e
                       | Inr d \<Rightarrow>
                           (case calculate_stroke_risk (dict_update d update_data) of
                              Inl e \<Rightarrow> Inl e
                            | Inr stroke_risk \<Rightarrow>
                                if \<not> attached then Inl AttributeError
                                else Inr (patient1
                                  (''stroke_risk'' := VInt stroke_risk,
                                   ''risk_level'' := VStr (get_risk_level stroke_risk)))))
            else Inr patient1) of
        Inl e \<Rightarrow> Inl e
      | Inr patient2 \<Rightarrow>
     if \<not> attached then Inl AttributeError
     else
     let patient3 = patient2(''updated_at'' := VTime now) in
     (case flush_patient E (\<lambda>c. patient3 c \<noteq> patient c)
             (filter (\<lambda>q. q ''id'' \<noteq> pid) tbl) patient3 of
        Inl e \<Rightarrow> Inl e
      | Inr stored \<Rightarrow> Inr (True, replace_row pid stored tbl)))))"

section \<open>Identities, the audit log and the stored state\<close>

text \<open>
  The relational user model (models/user.py). The configuration default selects
  this backend (\<open>USE_MONGODB_USERS\<close> is false); the document backend of
  models/user_mongodb.py enforces the same two unique indexes and is not modelled
  on its own.
\<close>

record user =
  user_id :: int
  username :: string
  email :: string
  password_hash :: string
  role :: string
  first_name :: string
  last_name :: string
  phone :: val
  specialization :: val
  license_number :: val
  is_active :: bool
  created_at :: int
  last_login :: "int option"

text \<open>
  A row of \<open>security_logs\<close> (models/security_log.py) as the list of its columns,
  and the stored state: the three tables and the lines written to the application
  logger.
\<close>

type_synonym security_log = "(string \<times> val) list"

record state =
  users :: "user list"
  patients :: "patient_row list"
  security_logs :: "security_log list"
  app_log :: "string list"

text \<open>
  \<open>SecurityLog.log_event\<close>: the only function that adds a row to
  \<open>security_logs\<close>. The optional arguments are given by name; \<open>status\<close> and
  \<open>severity\<close> default to \<open>'success'\<close> and \<open>'info'\<close>, the others to \<open>None\<close>.
\<close>

definition SecurityLog_log_event ::
  "int \<Rightarrow> state \<Rightarrow> string \<Rightarrow> string \<Rightarrow> (string \<times> val) list \<Rightarrow> security_log \<times> state" where
  "SecurityLog_log_event now st event_type description kwargs =
     (let log =
        [(''id'', VInt (1 + int (length (security_logs st)))),
         (''event_type'', VStr event_type),
         (''event_description'', VStr description),
         (''user_id'', dict_get (map_of kwargs) ''user_id'' VNone),
         (''username'', dict_get (map_of kwargs) ''username'' VNone),
         (''user_role'', dict_get (map_of kwargs) ''user_role'' VNone),
         (''target_user_id'', dict_get (map_of kwargs) ''target_user_id'' VNone),
         (''target_username'', dict_get (map_of kwargs) ''target_username'' VNone),
         (''target_type'', dict_get (map_of kwargs) ''target_type'' VNone),
         (''target_id'', dict_get (map_of kwargs) ''target_id'' VNone),
         (''ip_address'', dict_get (map_of kwargs) ''ip_address'' VNone),
         (''user_agent'', dict_get (map_of kwargs) ''user_agent'' VNone),
         (''status'', dict_get (map_of kwargs) ''status'' (VStr ''success'')),
         (''severity'', dict_get (map_of kwargs) ''severity'' (VStr ''info'')),
         (''additional_data'', dict_get (map_of kwargs) ''additional_data'' VNone),
         (''created_at'', VTime now)]
      in (log, st\<lparr>security_logs := security_logs st @ [log]\<rparr>))"

text \<open>
  \<open>log_security_event\<close> (utils/security.py), which the authentication routes call:
  one formatted line on the application logger.
\<close>

definition log_security_event ::
  "env \<Rightarrow> state \<Rightarrow> val \<Rightarrow> string \<Rightarrow> string \<Rightarrow> val \<Rightarrow> state" where
  "log_security_event E st uid event_type description ip_address =
     st\<lparr>app_log := app_log st @
       [''Security Event - User: '' @ py_str E uid @ '', Type: '' @ event_type
        @ '', Description: '' @ description @ '', IP: '' @ py_str E ip_address]\<rparr>"

text \<open>\<open>current_app.logger.error(f'<what> error: {str(e)}')\<close>\<close>

definition logger_error :: "env \<Rightarrow> state \<Rightarrow> string \<Rightarrow> error \<Rightarrow> state" where
  "logger_error E st what e = st\<lparr>app_log := app_log st @ [what @ '' error: '' @ exc_str E e]\<rparr>"

subsection \<open>UserOperations (utils/database.py)\<close>

definition find_by_username :: "state \<Rightarrow> string \<Rightarrow> user option" where
  "find_by_username st name = find (\<lambda>u. username u = name) (users st)"

definition find_by_email :: "state \<Rightarrow> string \<Rightarrow> user option" where
  "find_by_email st addr = find (\<lambda>u. email u = addr) (users st)"

text \<open>
  What the database checks when the session flushes a new user: the two unique
  constraints. The new key is one more than the largest key in the table.
\<close>

definition flush_user :: "user list \<Rightarrow> user \<Rightarrow> error + unit" where
  "flush_user tbl u =
     (if list_ex (\<lambda>x. username x = username u \<or> email x = email u) tbl
      then Inl IntegrityError else Inr ())"

definition next_user_id :: "user list \<Rightarrow> int" where
  "next_user_id tbl = 1 + fold (\<lambda>u m. max (user_id u) m) tbl 0"

text \<open>
  \<open>UserOperations.create_user\<close>: any exception (here the failed commit) is caught,
  the session is rolled back and \<open>None\<close> is returned.
\<close>

definition create_user ::
  "env \<Rightarrow> int \<Rightarrow> state \<Rightarrow> string \<Rightarrow> string \<Rightarrow> string \<Rightarrow> string \<Rightarrow> string \<Rightarrow> string
     \<Rightarrow> val \<Rightarrow> val \<Rightarrow> val \<Rightarrow> user option \<times> state" where
  "create_user E now st name addr password rl fname lname ph spec lic =
     (let u = \<lparr> user_id = next_user_id (users st), username = name, email = addr,
                password_hash = generate_password_hash E password, role = rl,
                first_name = fname, last_name = lname, phone = ph,
                specialization = spec, license_number = lic, is_active = True,
                created_at = now, last_login = None \<rparr>
      in case flush_user (users st) u of
           Inl e \<Rightarrow> (None, st)
         | Inr _ \<Rightarrow> (Some u, st\<lparr>users := users st @ [u]\<rparr>))"

text \<open>\<open>UserOperations.update_last_login\<close>\<close>

definition update_last_login :: "int \<Rightarrow> state \<Rightarrow> int \<Rightarrow> state" where
  "update_last_login now st uid =
     st\<lparr>users := map (\<lambda>u. if user_id u = uid then u\<lparr>last_login := Some now\<rparr> else u)
                      (users st)\<rparr>"

text \<open>
  \<open>User.check_password\<close>: bcrypt compares a string with the stored hash and raises
  \<open>TypeError\<close> on a password that is not a string.
\<close>

definition check_password :: "env \<Rightarrow> user \<Rightarrow> val \<Rightarrow> error + bool" where
  "check_password E u password =
     (case password of
        VStr p \<Rightarrow> Inr (check_password_hash E (password_hash u) p)
      | _ \<Rightarrow> Inl TypeError)"

text \<open>\<open>User.generate_auth_token\<close> with the default lifetime of 86400 seconds.\<close>

definition generate_auth_token :: "env \<Rightarrow> int \<Rightarrow> user \<Rightarrow> string" where
  "generate_auth_token E now u =
     jwt_encode E
       [(''user_id'', VInt (user_id u)), (''username'', VStr (username u)),
        (''role'', VStr (role u)), (''exp'', VTime (now + 86400))]"

text \<open>\<open>User.to_dict\<close>\<close>

definition user_to_dict :: "env \<Rightarrow> user \<Rightarrow> (string \<times> val) list" where
  "user_to_dict E u =
     [(''id'', VInt (user_id u)),
      (''username'', VStr (username u)),
      (''email'', VStr (email u)),
      (''role'', VStr (role u)),
      (''first_name'', VStr (first_name u)),
      (''last_name'', VStr (last_name u)),
      (''phone'', phone u),
      (''specialization'', specialization u),
      (''is_active'', VBool (is_active u)),
      (''created_at'', VStr (isoformat E (created_at u))),
      (''last_login'', case last_login u of None \<Rightarrow> VNone | Some t \<Rightarrow> VStr (isoformat E t))]"

subsection \<open>Helpers of the routes\<close>

text \<open>A response is the JSON body and the status code; most carry only a message.\<close>

type_synonym response = "val \<times> nat"

definition message :: "string \<Rightarrow> nat \<Rightarrow> response" where
  "message m code = (VDict [(''message'', VStr m)], code)"

text \<open>
  The loop \<open>for field in names: if not data.get(field): return ... 400\<close>: the
  first field that is missing or falsy.
\<close>

definition first_falsy :: "pydict \<Rightarrow> string list \<Rightarrow> string option" where
  "first_falsy data names = find (\<lambda>field. \<not> py_truthy (dict_get data field VNone)) names"

text \<open>
  \<open>validate_password\<close> (utils/security.py). \<open>len\<close> also counts the members of a
  JSON array or object, so a short one gets the first message; \<open>len\<close> of any
  other value that is not a string raises \<open>TypeError\<close>, and so does \<open>re.search\<close>
  on an array or object of eight members or more.
\<close>

definition validate_password :: "val \<Rightarrow> error + (bool \<times> string)" where
  "validate_password password =
     (case password of
        VStr p \<Rightarrow>
          Inr (if length p < 8
                 then (False, ''Password must be at least 8 characters long'')
               else if \<not> list_ex (\<lambda>c. c \<in> set ''ABCDEFGHIJKLMNOPQRSTUVWXYZ'') p
                 then (False, ''Password must contain at least one uppercase letter'')
               else if \<not> list_ex (\<lambda>c. c \<in> set ''abcdefghijklmnopqrstuvwxyz'') p
                 then (False, ''Password must contain at least one lowercase letter'')
               else if \<not> list_ex (\<lambda>c. c \<in> set ''0123456789'') p
                 then (False, ''Password must contain at least one number'')
               else (True, ''Password is valid''))
      | VList vs \<Rightarrow>
          if length vs < 8
            then Inr (False, ''Password must be at least 8 characters long'')
          else Inl TypeError
      | VDict kvs \<Rightarrow>
          if length (remdups (map fst kvs)) < 8
            then Inr (False, ''Password must be at least 8 characters long'')
          else Inl TypeError
      | _ \<Rightarrow> Inl TypeError)"

section \<open>Registration and login (routes/auth.py)\<close>

text \<open>
  \<open>register\<close>. The request body is the list of the members of the JSON object.
  After the loop over the required fields each of them is truthy, so
  \<open>sanitize_input\<close> returns the cleaned string for it, and the password that
  reaches \<open>create_user\<close> has passed \<open>validate_password\<close>, so it is a string. An
  exception inside the \<open>try\<close> is logged, the session is rolled back and the answer
  is 500.
\<close>

definition register :: "env \<Rightarrow> int \<Rightarrow> val \<Rightarrow> state \<Rightarrow> (string \<times> val) list \<Rightarrow> response \<times> state" where
  "register E now remote_addr st body =
     (let data = map_of body in
      case first_falsy data [''username'', ''email'', ''password'', ''first_name'',
                             ''last_name'', ''role''] of
        Some field \<Rightarrow> (message (field @ '' is required'') 400, st)
      | None \<Rightarrow>
     let name = sanitized E (dict_get data ''username'' VNone);
         addr = sanitized E (dict_get data ''email'' VNone);
         fname = sanitized E (dict_get data ''first_name'' VNone);
         lname = sanitized E (dict_get data ''last_name'' VNone);
         rl = sanitized E (dict_get data ''role'' VNone)
     in
     if \<not> validate_email E addr then (message ''Invalid email format'' 400, st)
     else
     (case validate_password (dict_get data ''password'' VNone) of
        Inl e \<Rightarrow> (message ''Internal server error'' 500, logger_error E st ''Registration'' e)
      | Inr (is_valid_password, password_msg) \<Rightarrow>
     if \<not> is_valid_password then (message password_msg 400, st)
     else if find_by_username st name \<noteq> None
       then (message ''Username already exists'' 409, st)
     else if find_by_email st addr \<noteq> None
       then (message ''Email already exists'' 409, st)
     else if rl \<notin> set [''patient'', ''doctor'', ''admin'']
       then (message ''Invalid role'' 400, st)
     else
     (case create_user E now st name addr
             (case dict_get data ''password'' VNone of VStr p \<Rightarrow> p | _ \<Rightarrow> [])
             rl fname lname
             (sanitize_input E (dict_get data ''phone'' (VStr [])))
             (if rl = ''doctor''
              then sanitize_input E (dict_get data ''specialization'' (VStr [])) else VNone)
             (if rl = ''doctor''
              then sanitize_input E (dict_get data ''license_number'' (VStr [])) else VNone) of
        (None, st') \<Rightarrow> (message ''Failed to create user'' 500, st')
      | (Some new_user, st') \<Rightarrow>
          ((VDict [(''message'', VStr ''User registered successfully''),
                   (''user'', VDict (user_to_dict E new_user))], 201),
           log_security_event E st' (VInt (user_id new_user)) ''USER_REGISTER''
             (''User '' @ name @ '' registered successfully'') remote_addr))))"

text \<open>
  \<open>login\<close>, from the parsed body on. The username must be unchanged by
  \<open>sanitize_input\<close>. \<open>not user or not user.check_password(password)\<close> does not
  look at the password when there is no user. \<open>update_last_login\<close> changes the
  user object that the response then serialises.
\<close>

definition login :: "env \<Rightarrow> int \<Rightarrow> val \<Rightarrow> state \<Rightarrow> (string \<times> val) list \<Rightarrow> response \<times> state" where
  "login E now remote_addr st body =
     (let data = map_of body in
      if body = [] then (message ''No JSON data provided'' 400, st)
      else if \<not> py_truthy (dict_get data ''username'' VNone)
            \<or> \<not> py_truthy (dict_get data ''password'' VNone)
        then (message ''Username and password are required'' 400, st)
      else
      let original_username = dict_get data ''username'' VNone;
          name = sanitize_input E original_username
      in
      if name \<noteq> original_username
        then (message ''Username contains invalid whitespace or characters'' 400, st)
      else
      let password = dict_get data ''password'' VNone;
          found = (case name of VStr s \<Rightarrow> find_by_username st s | _ \<Rightarrow> None);
          failed = (message ''Invalid username or password'' 401,
                    log_security_event E st VNone ''LOGIN_FAILED''
                      (''Failed login attempt for username: '' @ py_str E name) remote_addr)
      in
      case found of
        None \<Rightarrow> failed
      | Some u \<Rightarrow>
          (case check_password E u password of
             Inl e \<Rightarrow> (message ''Internal server error'' 500, logger_error E st ''Login'' e)
           | Inr False \<Rightarrow> failed
           | Inr True \<Rightarrow>
               if \<not> is_active u then (message ''Account is deactivated'' 401, st)
               else
               let st1 = update_last_login now st (user_id u);
                   token = generate_auth_token E now u;
                   st2 = log_security_event E st1 (VInt (user_id u)) ''LOGIN_SUCCESS''
                           (''User '' @ py_str E name @ '' logged in successfully'') remote_addr
               in ((VDict [(''message'', VStr ''Login successful''),
                           (''token'', VStr token),
                           (''user'', VDict (user_to_dict E (u\<lparr>last_login := Some now\<rparr>)))],
                    200), st2)))"

section \<open>Patient self-registration (routes/patients.py)\<close>

definition PATIENT_FIELDS :: "string list" where
  "PATIENT_FIELDS =
     [''gender'', ''age'', ''hypertension'', ''heart_disease'', ''ever_married'',
      ''work_type'', ''Residence_type'', ''avg_glucose_level'', ''bmi'',
      ''smoking_status'', ''stroke'']"

text \<open>\<open>v < n\<close> for an integer literal, \<open>int(v)\<close> and \<open>float(v)\<close>.\<close>

fun py_lt :: "val \<Rightarrow> int \<Rightarrow> error + bool" where
  "py_lt (VInt i) n = Inr (i < n)"
| "py_lt (VBool b) n = Inr ((if b then 1 else 0) < n)"
| "py_lt (VFloat r) n = Inr (r < of_int n)"
| "py_lt v n = Inl TypeError"

fun int_of :: "env \<Rightarrow> val \<Rightarrow> error + val" where
  "int_of E (VInt i) = Inr (VInt i)"
| "int_of E (VBool b) = Inr (VInt (if b then 1 else 0))"
| "int_of E (VFloat r) = Inr (VInt (if r \<ge> 0 then \<lfloor>r\<rfloor> else \<lceil>r\<rceil>))"
| "int_of E (VStr s) = (case py_int E s of None \<Rightarrow> Inl ValueError | Some i \<Rightarrow> Inr (VInt i))"
| "int_of E v = Inl TypeError"

fun float_of :: "env \<Rightarrow> val \<Rightarrow> error + val" where
  "float_of E (VInt i) = Inr (VFloat (of_int i))"
| "float_of E (VBool b) = Inr (VFloat (if b then 1 else 0))"
| "float_of E (VFloat r) = Inr (VFloat r)"
| "float_of E (VStr s) = (case py_float E s of None \<Rightarrow> Inl ValueError | Some r \<Rightarrow> Inr (VFloat r))"
| "float_of E v = Inl TypeError"

text \<open>
  \<open>_convert_patient_numbers\<close>: each numeric field that is present is converted;
  the first conversion that raises \<open>ValueError\<close> or \<open>TypeError\<close> ends the function
  with a \<open>ValueError\<close>, whose message is the result \<open>Inl\<close>.
\<close>

fun convert_fields ::
  "(val \<Rightarrow> error + val) \<Rightarrow> string list \<Rightarrow> pydict \<Rightarrow> string + pydict" where
  "convert_fields conv [] converted = Inr converted"
| "convert_fields conv (field # rest) converted =
     (case converted field of
        None \<Rightarrow> convert_fields conv rest converted
      | Some v \<Rightarrow>
          (case conv v of
             Inl e \<Rightarrow> Inl (field @ '' must be a number'')
           | Inr v' \<Rightarrow> convert_fields conv rest (converted(field \<mapsto> v'))))"

definition convert_patient_numbers :: "env \<Rightarrow> pydict \<Rightarrow> string + pydict" where
  "convert_patient_numbers E data =
     (case convert_fields (int_of E) [''age'', ''hypertension'', ''heart_disease'', ''stroke''] data of
        Inl m \<Rightarrow> Inl m
      | Inr converted \<Rightarrow> convert_fields (float_of E) [''avg_glucose_level'', ''bmi''] converted)"

text \<open>
  \<open>validate_patient_data\<close> (utils/validation.py): the list of the messages of the
  checks that fail. \<open>ever_married\<close> and \<open>Residence_type\<close> are not checked.
\<close>

definition out_of_range :: "val \<Rightarrow> int \<Rightarrow> int \<Rightarrow> error + bool" where
  "out_of_range v lo hi =
     (if v = VNone then Inr True
      else case py_lt v lo of
             Inl e \<Rightarrow> Inl e
           | Inr True \<Rightarrow> Inr True
           | Inr False \<Rightarrow> py_gt v hi)"

definition not_a_flag :: "val \<Rightarrow> bool" where
  "not_a_flag v = (\<not> (py_eq_int v 0 \<or> py_eq_int v 1))"

definition not_one_of :: "val \<Rightarrow> string list \<Rightarrow> bool" where
  "not_one_of v allowed = (\<not> list_ex (\<lambda>s. v = VStr s) allowed)"

definition validate_patient_data :: "pydict \<Rightarrow> error + string list" where
  "validate_patient_data patient_data =
     (case out_of_range (dict_get patient_data ''age'' VNone) 0 120 of
        Inl e \<Rightarrow> Inl e
      | Inr bad_age \<Rightarrow>
     (case out_of_range (dict_get patient_data ''bmi'' VNone) 10 60 of
        Inl e \<Rightarrow> Inl e
      | Inr bad_bmi \<Rightarrow>
     (case out_of_range (dict_get patient_data ''avg_glucose_level'' VNone) 50 300 of
        Inl e \<Rightarrow> Inl e
      | Inr bad_glucose \<Rightarrow>
     Inr ((if bad_age then [''Age must be between 0 and 120''] else [])
        @ (if bad_bmi then [''BMI must be between 10 and 60''] else [])
        @ (if bad_glucose then [''Glucose level must be between 50 and 300''] else [])
        @ (if not_a_flag (dict_get patient_data ''hypertension'' VNone)
           then [''Hypertension must be 0 or 1''] else [])
        @ (if not_a_flag (dict_get patient_data ''heart_disease'' VNone)
           then [''Heart disease must be 0 or 1''] else [])
        @ (if not_a_flag (dict_get patient_data ''stroke'' VNone)
           then [''Stroke must be 0 or 1''] else [])
        @ (if not_one_of (dict_get patient_data ''gender'' VNone) [''Male'', ''Female'', ''Other'']
           then [''Gender must be one of: Male, Female, Other''] else [])
        @ (if not_one_of (dict_get patient_data ''work_type'' VNone)
                [''Private'', ''Self-employed'', ''Govt_job'', ''Children'', ''Never_worked'']
           then [''Work type must be one of: Private, Self-employed, Govt_job, Children, Never_worked'']
           else [])
        @ (if not_one_of (dict_get patient_data ''smoking_status'' VNone)
                [''Never smoked'', ''Smokes'', ''Formerly smoked'', ''Unknown'']
           then [''Smoking status must be one of: Never smoked, Smokes, Formerly smoked, Unknown'']
           else [])))))"

text \<open>
  \<open>_prepare_patient_payload\<close>: the patient fields that are present, the strings
  among them cleaned.
\<close>

definition prepare_patient_payload :: "env \<Rightarrow> pydict \<Rightarrow> pydict" where
  "prepare_patient_payload E converted_data =
     (\<lambda>field. if field \<in> set PATIENT_FIELDS
               then (case converted_data field of
                       None \<Rightarrow> None
                     | Some (VStr s) \<Rightarrow> Some (sanitize_input E (VStr s))
                     | Some v \<Rightarrow> Some v)
               else None)"

text \<open>\<open>data.get(key, '').strip()\<close>: only a string has \<open>strip\<close>.\<close>

definition get_stripped :: "env \<Rightarrow> pydict \<Rightarrow> string \<Rightarrow> error + string" where
  "get_stripped E data key =
     (case dict_get data key (VStr []) of
        VStr s \<Rightarrow> Inr (py_strip E s)
      | _ \<Rightarrow> Inl AttributeError)"

subsection \<open>The session after a failed flush\<close>

text \<open>
  When \<open>db.session.commit()\<close> raises because the flush failed (a constraint of the
  database, or a value the driver cannot bind), the ORM has rolled the transaction
  back and the session refuses further work until \<open>db.session.rollback()\<close> is
  called: the next \<open>commit\<close> raises \<open>PendingRollbackError\<close>. The handlers of
  utils/database.py and the \<open>IntegrityError\<close> handler of this route call
  \<open>rollback()\<close> for this reason. An exception raised before the session was used
  leaves it active.
\<close>

datatype session = Active | Inactive

definition session_after :: "error \<Rightarrow> session" where
  "session_after e =
     (if e = IntegrityError \<or> e = StatementError \<or> e = OverflowError then Inactive
      else Active)"

text \<open>\<open>db.session.delete(user); db.session.commit()\<close>\<close>

definition delete_user_commit :: "session \<Rightarrow> user list \<Rightarrow> user \<Rightarrow> error + user list" where
  "delete_user_commit sess tbl u =
     (case sess of
        Inactive \<Rightarrow> Inl PendingRollbackError
      | Active \<Rightarrow> Inr (filter (\<lambda>x. user_id x \<noteq> user_id u) tbl))"

subsection \<open>The route\<close>

text \<open>
  The checks of \<open>self_register_patient\<close> up to the creation of the user: an early
  response, an exception (which the outer handler turns into a 500), or the values
  the rest of the function works with.
\<close>

datatype 'a step = Respond response | Raised error | Go 'a

record registration =
  reg_username :: string
  reg_email :: string
  reg_password :: string
  reg_first_name :: string
  reg_last_name :: string
  reg_phone :: val
  reg_patient :: pydict

definition self_register_checks :: "env \<Rightarrow> state \<Rightarrow> (string \<times> val) list \<Rightarrow> registration step" where
  "self_register_checks E st body =
     (let data = map_of body in
      case find (\<lambda>field. data field = None) PATIENT_FIELDS of
        Some field \<Rightarrow> Respond (message (field @ '' is required'') 400)
      | None \<Rightarrow>
     (case first_falsy data [''username'', ''password'', ''email'', ''first_name'', ''last_name''] of
        Some field \<Rightarrow> Respond (message (field @ '' is required'') 400)
      | None \<Rightarrow>
     (case get_stripped E data ''username'' of
        Inl e \<Rightarrow> Raised e
      | Inr name \<Rightarrow>
     if name = [] then Respond (message ''Username is required'' 400)
     else if VStr name \<noteq> sanitize_input E (VStr name) \<or> CHR '' '' \<in> set name
       then Respond (message ''Username cannot contain spaces or invalid characters'' 400)
     else if length name < 3
       then Respond (message ''Username must be at least 3 characters'' 400)
     else if find_by_username st name \<noteq> None
       then Respond (message ''Username already exists'' 409)
     else
     (case get_stripped E data ''email'' of
        Inl e \<Rightarrow> Raised e
      | Inr addr \<Rightarrow>
     if addr = [] \<or> \<not> validate_email E addr
       then Respond (message ''Valid email is required'' 400)
     else if find_by_email st addr \<noteq> None
       then Respond (message ''Email already exists'' 409)
     else
     (case validate_password (dict_get data ''password'' (VStr [])) of
        Inl e \<Rightarrow> Raised e
      | Inr (valid_password, password_message) \<Rightarrow>
     if \<not> valid_password then Respond (message password_message 400)
     else
     (case convert_patient_numbers E data of
        Inl conv_error \<Rightarrow> Respond (message conv_error 400)
      | Inr converted_data \<Rightarrow>
     (case validate_patient_data converted_data of
        Inl e \<Rightarrow> Raised e
      | Inr validation_errors \<Rightarrow>
     if validation_errors \<noteq> []
       then Respond (VDict [(''message'', VStr ''Validation errors''),
                            (''errors'', VList (map VStr validation_errors))], 400)
     else
     (case get_stripped E data ''first_name'' of
        Inl e \<Rightarrow> Raised e
      | Inr fname \<Rightarrow>
     (case get_stripped E data ''last_name'' of
        Inl e \<Rightarrow> Raised e
      | Inr lname \<Rightarrow>
     let first = sanitize_input E (VStr fname);
         second = sanitize_input E (VStr lname)
     in
     if \<not> py_truthy first \<or> \<not> py_truthy second
       then Respond (message ''First name and last name are required'' 400)
     else
     Go \<lparr> reg_username = name, reg_email = addr,
          reg_password = (case dict_get data ''password'' (VStr []) of VStr p \<Rightarrow> p | _ \<Rightarrow> []),
          reg_first_name = (case first of VStr s \<Rightarrow> s | _ \<Rightarrow> []),
          reg_last_name = (case second of VStr s \<Rightarrow> s | _ \<Rightarrow> []),
          reg_phone = (if py_truthy (dict_get data ''phone'' VNone)
                       then sanitize_input E (dict_get data ''phone'' VNone) else VNone),
          reg_patient = prepare_patient_payload E converted_data \<rparr>)))))))))"

text \<open>
  \<open>self_register_patient\<close>: the user is added and committed (a failed commit is
  rolled back and answered with 409); then the patient record is created with
  \<open>created_by\<close> set to the new user. When that raises, or returns no id, the
  handler deletes the user and commits. An exception that leaves the function body,
  that of the handler's own commit included, reaches the outer handler, which logs
  it and answers 500.
\<close>

definition self_register_patient ::
  "env \<Rightarrow> bool \<Rightarrow> int \<Rightarrow> state \<Rightarrow> (string \<times> val) list \<Rightarrow> response \<times> state" where
  "self_register_patient E USE_MONGODB now st body =
     (case self_register_checks E st body of
        Respond r \<Rightarrow> (r, st)
      | Raised e \<Rightarrow>
          (message ''Internal server error'' 500, logger_error E st ''Self registration'' e)
      | Go reg \<Rightarrow>
     let u = \<lparr> user_id = next_user_id (users st), username = reg_username reg,
                email = reg_email reg,
                password_hash = generate_password_hash E (reg_password reg),
                role = ''patient'', first_name = reg_first_name reg,
                last_name = reg_last_name reg, phone = reg_phone reg,
                specialization = VNone, license_number = VNone, is_active = True,
                created_at = now, last_login = None \<rparr>
     in
     (case flush_user (users st) u of
        Inl e \<Rightarrow> (message ''Username or email already exists'' 409, st)
      | Inr _ \<Rightarrow>
     let st1 = st\<lparr>users := users st @ [u]\<rparr>;
         sanitized_data = (reg_patient reg)
            (''created_by'' \<mapsto> VInt (user_id u), ''assigned_doctor_id'' \<mapsto> VNone)
     in
     (case create_patient E USE_MONGODB now (patients st1) sanitized_data of
        Inl patient_error \<Rightarrow>
          (case delete_user_commit (session_after patient_error) (users st1) u of
             Inl e \<Rightarrow>
               (message ''Internal server error'' 500,
                logger_error E st1 ''Self registration'' e)
           | Inr tbl \<Rightarrow>
               (message ''Failed to register patient'' 500,
                logger_error E (st1\<lparr>users := tbl\<rparr>) ''Patient creation'' patient_error))
      | Inr (patient_id, tbl') \<Rightarrow>
          if py_truthy patient_id
          then ((VDict [(''message'', VStr ''Patient self-registration submitted successfully''),
                        (''patient_id'', patient_id),
                        (''status'', VStr ''pending_review'')], 201),
                st1\<lparr>patients := tbl'\<rparr>)
          else
          (case delete_user_commit Active (users st1) u of
             Inl e \<Rightarrow>
               (message ''Internal server error'' 500,
                logger_error E st1 ''Self registration'' e)
           | Inr tbl \<Rightarrow>
               (message ''Failed to register patient'' 500, st1\<lparr>users := tbl\<rparr>)))))"

section \<open>Appointments (services/appointment_service.py, routes/appointments.py)\<close>

text \<open>
  Appointments live in a collection of the document store. A document is the list
  of its fields; the collection lists the documents under their object ids. The
  service holds the collection, or \<open>None\<close> when the connection failed at start-up;
  every use of the missing collection raises \<open>AttributeError\<close>. Times are in
  milliseconds, the precision the store keeps.
\<close>

type_synonym doc = "(string \<times> val) list"

type_synonym appointment_service = "(string \<times> doc) list option"

text \<open>\<open>$set\<close> of one field, and of the fields of an update document.\<close>

fun doc_set :: "string \<Rightarrow> val \<Rightarrow> doc \<Rightarrow> doc" where
  "doc_set k v [] = [(k, v)]"
| "doc_set k v ((k', v') # d) = (if k' = k then (k, v) # d else (k', v') # doc_set k v d)"

definition set_fields :: "doc \<Rightarrow> doc \<Rightarrow> doc" where
  "set_fields d update = fold (\<lambda>(k, v) d'. doc_set k v d') update d"

text \<open>
  \<open>collection.update_one({'_id': oid}, {'$set': update})\<close>: the result is
  \<open>modified_count\<close>, which counts the matched document only if the update changed
  it, and the new collection.
\<close>

fun update_one :: "string \<Rightarrow> doc \<Rightarrow> (string \<times> doc) list \<Rightarrow> nat \<times> (string \<times> doc) list" where
  "update_one oid update [] = (0, [])"
| "update_one oid update ((i, d) # coll) =
     (if i = oid
      then ((if set_fields d update = d then 0 else 1), (i, set_fields d update) # coll)
      else (case update_one oid update coll of (n, coll') \<Rightarrow> (n, (i, d) # coll')))"



text \<open>\<open>collection.find_one({'_id': oid})\<close>.\<close>

definition find_one :: "(string \<times> doc) list \<Rightarrow> string \<Rightarrow> doc option" where
  "find_one coll oid = map_of coll oid"

text \<open>
  \<open>get_appointment\<close>: any exception (an id that \<open>ObjectId\<close> rejects, the missing
  collection) is caught and gives \<open>None\<close>.
\<close>

definition get_appointment :: "env \<Rightarrow> appointment_service \<Rightarrow> string \<Rightarrow> doc option" where
  "get_appointment E svc appointment_id =
     (case svc of
        None \<Rightarrow> None
      | Some coll \<Rightarrow>
          if \<not> object_id E appointment_id then None
          else (case find_one coll appointment_id of
                  None \<Rightarrow> None
                | Some appointment \<Rightarrow> Some (doc_set ''id'' (VStr appointment_id) appointment)))"

text \<open>
  \<open>update_appointment\<close>: the time of the call is added to the update as
  \<open>updated_at\<close>; the result is \<open>modified_count > 0\<close>, and \<open>False\<close> after any
  exception.
\<close>

definition update_appointment ::
  "env \<Rightarrow> int \<Rightarrow> appointment_service \<Rightarrow> string \<Rightarrow> doc \<Rightarrow> bool \<times> appointment_service" where
  "update_appointment E now svc appointment_id update_data =
     (case svc of
        None \<Rightarrow> (False, svc)
      | Some coll \<Rightarrow>
          if \<not> object_id E appointment_id then (False, svc)
          else (case update_one appointment_id
                       (set_fields update_data [(''updated_at'', VTime now)]) coll of
                  (modified_count, coll') \<Rightarrow> (modified_count > 0, Some coll')))"

definition cancel_appointment ::
  "env \<Rightarrow> int \<Rightarrow> appointment_service \<Rightarrow> string \<Rightarrow> bool \<times> appointment_service" where
  "cancel_appointment E now svc appointment_id =
     update_appointment E now svc appointment_id [(''status'', VStr ''cancelled'')]"

subsection \<open>The routes\<close>


text \<open>
  The ownership test of the cancel and reschedule routes: a patient may touch only
  the appointments booked for that patient, a doctor only those with that doctor.
  \<open>appointment['patient_id']\<close> raises \<open>KeyError\<close> on a document without the
  field; \<open>and\<close> reads it only for a user of the role.
\<close>

definition not_owner :: "env \<Rightarrow> user \<Rightarrow> doc \<Rightarrow> string \<Rightarrow> error + bool" where
  "not_owner E current_user appointment key =
     (case dict_item (map_of appointment) key of
        Inl e \<Rightarrow> Inl e
      | Inr v \<Rightarrow> Inr (v \<noteq> VStr (py_str E (VInt (user_id current_user)))))"

definition access_denied :: "env \<Rightarrow> user \<Rightarrow> doc \<Rightarrow> error + bool" where
  "access_denied E current_user appointment =
     (case (if role current_user = ''patient''
            then not_owner E current_user appointment ''patient_id'' else Inr False) of
        Inl e \<Rightarrow> Inl e
      | Inr True \<Rightarrow> Inr True
      | Inr False \<Rightarrow>
          (if role current_user = ''doctor''
           then not_owner E current_user appointment ''doctor_id'' else Inr False))"


text \<open>
  \<open>cancel_appointment\<close> (the route). The result of the service call is not
  looked at.
\<close>

definition cancel_route ::
  "env \<Rightarrow> int \<Rightarrow> user \<Rightarrow> appointment_service \<Rightarrow> string \<Rightarrow> response \<times> appointment_service" where
  "cancel_route E now current_user svc appointment_id =
     (case get_appointment E svc appointment_id of
        None \<Rightarrow> (message ''Appointment not found'' 404, svc)
      | Some appointment \<Rightarrow>
          (case access_denied E current_user appointment of
             Inl e \<Rightarrow> (message ''Internal server error'' 500, svc)
           | Inr True \<Rightarrow> (message ''Access denied'' 403, svc)
           | Inr False \<Rightarrow>
               (message ''Appointment cancelled successfully'' 200,
                snd (cancel_appointment E now svc appointment_id))))"


section \<open>Example inputs\<close>

text \<open>A patient with no risk factor, and a table holding only that patient.\<close>

definition healthy_patient :: patient_row where
  "healthy_patient = row_of
     [(''id'', VInt 1), (''gender'', VStr ''Female''), (''age'', VInt 30),
      (''hypertension'', VInt 0), (''heart_disease'', VInt 0),
      (''ever_married'', VStr ''No''), (''work_type'', VStr ''Private''),
      (''Residence_type'', VStr ''Urban''), (''avg_glucose_level'', VFloat 90),
      (''bmi'', VFloat 22), (''smoking_status'', VStr ''Never smoked''),
      (''stroke'', VInt 0), (''stroke_risk'', VFloat 0), (''risk_level'', VStr ''low''),
      (''created_by'', VInt 7), (''assigned_doctor_id'', VNone),
      (''created_at'', VTime 100), (''updated_at'', VTime 100)]"

text \<open>
  Stand-ins for the library functions, for evaluating the model on an input. That
  of \<open>db_bind\<close> follows the column types of models/patient_sqllite.py: a timestamp
  column takes a \<open>datetime\<close> or \<open>None\<close>; an array or an object cannot be bound; a
  boolean is bound as 0 or 1; an integer must fit 64 bits and becomes a float in a
  \<open>Float\<close> column; a float without fraction becomes an integer in an \<open>Integer\<close>
  column; a string of decimal digits becomes that number in an \<open>Integer\<close> or \<open>Float\<close>
  column. Every other value is stored as it is (the stand-in does not turn a number
  written to a \<open>String\<close> column into text).
\<close>

definition demo_int :: "string \<Rightarrow> int option" where
  "demo_int s =
     (if s \<noteq> [] \<and> list_all (\<lambda>c. c \<in> set ''0123456789'') s
      then Some (fold (\<lambda>c n. 10 * n + (of_char c - 48)) s 0) else None)"

definition demo_number :: "string \<Rightarrow> int \<Rightarrow> bind_result" where
  "demo_number c i =
     (if i < - (2 ^ 63) \<or> 2 ^ 63 \<le> i then BindOverflow
      else if c \<in> set [''avg_glucose_level'', ''bmi'', ''stroke_risk'']
        then Bound (VFloat (of_int i))
      else Bound (VInt i))"

definition demo_bind :: "string \<Rightarrow> val \<Rightarrow> bind_result" where
  "demo_bind c v =
     (if c \<in> set [''created_at'', ''updated_at'']
      then (case v of VTime t \<Rightarrow> Bound v | VNone \<Rightarrow> Bound v | _ \<Rightarrow> BindError)
      else
      (case v of
         VList vs \<Rightarrow> BindError
       | VDict kvs \<Rightarrow> BindError
       | VBool b \<Rightarrow> demo_number c (if b then 1 else 0)
       | VInt i \<Rightarrow> demo_number c i
       | VFloat r \<Rightarrow>
           (if c \<in> set [''id'', ''age'', ''hypertension'', ''heart_disease'', ''stroke'',
                          ''created_by'', ''assigned_doctor_id''] \<and> r = of_int \<lfloor>r\<rfloor>
            then demo_number c \<lfloor>r\<rfloor> else Bound v)
       | VStr s \<Rightarrow>
           (if c \<in> set [''gender'', ''ever_married'', ''work_type'', ''Residence_type'',
                          ''smoking_status'', ''risk_level'']
            then Bound v
            else case demo_int s of Some i \<Rightarrow> demo_number c i | None \<Rightarrow> Bound v)
       | _ \<Rightarrow> Bound v))"

definition demo_env :: env where
  "demo_env =
     \<lparr> py_int = (\<lambda>s. None),
       py_float = (\<lambda>s. None),
       py_str = (\<lambda>v. case v of VStr s \<Rightarrow> s
                         | VInt i \<Rightarrow> (if i = 1 then ''1'' else if i = 3 then ''3'' else ''?'')
                         | _ \<Rightarrow> ''?''),
       exc_str = (\<lambda>e. ''error''),
       py_strip = (\<lambda>s. s),
       isoformat = (\<lambda>t. ''T''),
       orm_attr = (\<lambda>k. k \<in> set [''query'', ''metadata'', ''_sa_instance_state'', ''__class__'']),
       setattr_other = (\<lambda>k v. if k = ''_sa_instance_state'' then Detached
                               else if k = ''__class__'' then Refused TypeError else Kept),
       db_bind = demo_bind,
       sanitize_str = (\<lambda>s. s),
       validate_email = (\<lambda>s. CHR ''@'' \<in> set s),
       generate_password_hash = (\<lambda>p. ''#'' @ p),
       check_password_hash = (\<lambda>h p. h = ''#'' @ p),
       jwt_encode = (\<lambda>payload. ''token''),
       strptime_date = (\<lambda>s. if s = ''2025-01-09'' then Some 9
                            else if s = ''2025-01-10'' then Some 10
                            else if s = ''2025-01-11'' then Some 11 else None),
       strptime_time = (\<lambda>s. if s = ''09:30'' then Some 570 else None),
       object_id = (\<lambda>s. length s = 24) \<rparr>"

text \<open>
  Two accounts, one of them deactivated, and a state holding them and the patient
  above. The stand-in hash of a password is the password after \<open>'#'\<close>.
\<close>

definition alice :: user where
  "alice = \<lparr> user_id = 1, username = ''alice'', email = ''alice@example.org'',
             password_hash = ''#Secret123'', role = ''doctor'', first_name = ''Alice'',
             last_name = ''Ames'', phone = VNone, specialization = VStr ''Neurology'',
             license_number = VNone, is_active = True, created_at = 50,
             last_login = None \<rparr>"

definition carol :: user where
  "carol = \<lparr> user_id = 2, username = ''carol'', email = ''carol@example.org'',
             password_hash = ''#Secret456'', role = ''patient'', first_name = ''Carol'',
             last_name = ''Cole'', phone = VNone, specialization = VNone,
             license_number = VNone, is_active = False, created_at = 60,
             last_login = None \<rparr>"

definition clinic :: state where
  "clinic = \<lparr> users = [alice, carol], patients = [healthy_patient],
              security_logs = [], app_log = [] \<rparr>"

definition dave_request :: "(string \<times> val) list" where
  "dave_request =
     [(''username'', VStr ''dave''), (''email'', VStr ''dave@example.org''),
      (''password'', VStr ''Passw0rdX''), (''first_name'', VStr ''Dave''),
      (''last_name'', VStr ''Dow''), (''role'', VStr ''patient'')]"

definition dave_again :: "(string \<times> val) list" where
  "dave_again =
     [(''username'', VStr ''dave''), (''email'', VStr ''other@example.org''),
      (''password'', VStr ''An0therPw''), (''first_name'', VStr ''David''),
      (''last_name'', VStr ''Dow''), (''role'', VStr ''doctor'')]"

text \<open>
  A self-registration request that passes every check of the route: all patient
  fields are present and those that are validated are valid; \<open>ever_married\<close>,
  which is not validated, is \<open>null\<close>.
\<close>

definition erin_request :: "(string \<times> val) list" where
  "erin_request =
     [(''gender'', VStr ''Female''), (''age'', VInt 41), (''hypertension'', VInt 0),
      (''heart_disease'', VInt 0), (''ever_married'', VNone),
      (''work_type'', VStr ''Private''), (''Residence_type'', VStr ''Urban''),
      (''avg_glucose_level'', VFloat 88), (''bmi'', VFloat 24),
      (''smoking_status'', VStr ''Never smoked''), (''stroke'', VInt 0),
      (''username'', VStr ''erin''), (''password'', VStr ''Passw0rdX''),
      (''email'', VStr ''erin@example.org''), (''first_name'', VStr ''Erin''),
      (''last_name'', VStr ''Eads'')]"

text \<open>
  A patient, a collection holding one appointment of that patient with the doctor
  \<open>alice\<close>, and requests for the day before the current day (day 10), for the
  current day and for the day after.
\<close>

definition bob :: user where
  "bob = \<lparr> user_id = 3, username = ''bob'', email = ''bob@example.org'',
           password_hash = ''#Secret789'', role = ''patient'', first_name = ''Bob'',
           last_name = ''Birch'', phone = VNone, specialization = VNone,
           license_number = VNone, is_active = True, created_at = 70,
           last_login = None \<rparr>"

definition checkup :: doc where
  "checkup =
     [(''patient_id'', VStr ''3''), (''doctor_id'', VStr ''1''),
      (''appointment_date'', VStr ''2025-01-11''), (''appointment_time'', VStr ''09:30''),
      (''reason'', VStr ''Check-up''), (''urgency'', VStr ''routine''),
      (''status'', VStr ''scheduled''), (''notes'', VNone),
      (''created_at'', VTime 500), (''updated_at'', VTime 500)]"

definition bookings :: appointment_service where
  "bookings = Some [(''65a1b2c3d4e5f60718293a4b'', checkup)]"





section \<open>Properties of the risk scorer\<close>

lemma if_elif_gt_num:
  assumes "num_val v = Some x"
  shows "if_elif_gt v hi p_hi lo p_lo =
           Inr (if x > of_int hi then p_hi else if x > of_int lo then p_lo else 0)"
  using assms by (cases v) (auto simp: if_elif_gt_def)

lemma py_eq_int_num: "py_eq_int v n = (num_val v = Some (of_int n))"
  by (cases v) auto

lemma band_points:
  assumes "case pd k of None \<Rightarrow> True | Some v \<Rightarrow> num_val v \<noteq> None"
    and "\<And>x. pts x = (if x > of_int hi then p_hi else if x > of_int lo then p_lo else 0)"
    and "lo \<ge> 0" and "hi \<ge> 0"
  shows "if_elif_gt (dict_get pd k (VInt 0)) hi p_hi lo p_lo = Inr (spec_band pd k pts)"
proof (cases "pd k")
  case None
  with assms(3,4) show ?thesis
    by (auto simp: dict_get_def spec_band_def if_elif_gt_def)
next
  case (Some v)
  with assms(1) obtain x where x: "num_val v = Some x" by auto
  from Some x assms(2) show ?thesis
    by (simp add: dict_get_def spec_band_def if_elif_gt_num)
qed

lemma flag_points:
  "(if py_eq_int (dict_get pd k (VInt 0)) 1 then p else 0) = spec_flag pd k p"
  by (cases "pd k") (auto simp: dict_get_def spec_flag_def py_eq_int_num)

lemma smoking_points:
  "(let s = dict_get pd ''smoking_status'' (VStr ''Unknown'')
    in if s = VStr ''Smokes'' then 10 else if s = VStr ''Formerly smoked'' then 5 else 0)
   = spec_smoking_points pd"
  by (cases "pd ''smoking_status''") (auto simp: dict_get_def spec_smoking_points_def)


lemma spec_score_range: "0 \<le> spec_score pd \<and> spec_score pd \<le> 100"
proof -
  have band: "\<And>k. 0 \<le> spec_band pd k spec_age_points
        \<and> 0 \<le> spec_band pd k spec_glucose_points
        \<and> 0 \<le> spec_band pd k spec_bmi_points"
    by (auto simp: spec_band_def spec_age_points_def spec_glucose_points_def
        spec_bmi_points_def split: option.splits)
  have flag: "\<And>k p. 0 \<le> p \<Longrightarrow> 0 \<le> spec_flag pd k p"
    by (auto simp: spec_flag_def split: option.splits)
  have smoke: "0 \<le> spec_smoking_points pd"
    by (simp add: spec_smoking_points_def)
  have "0 \<le> spec_band pd ''age'' spec_age_points
        + spec_flag pd ''hypertension'' 25
        + spec_flag pd ''heart_disease'' 20
        + spec_band pd ''avg_glucose_level'' spec_glucose_points
        + spec_band pd ''bmi'' spec_bmi_points
        + spec_smoking_points pd
        + spec_flag pd ''stroke'' 30"
    using band [of "''age''"] band [of "''avg_glucose_level''"] band [of "''bmi''"]
      flag [of 25 "''hypertension''"] flag [of 20 "''heart_disease''"]
      flag [of 30 "''stroke''"] smoke
    by linarith
  then show ?thesis by (simp add: spec_score_def)
qed

lemma calculate_stroke_risk_refines:
  assumes "numeric_fields pd"
  shows "calculate_stroke_risk pd = Inr (spec_score pd)"
proof -
  from assms have num:
    "case pd ''age'' of None \<Rightarrow> True | Some v \<Rightarrow> num_val v \<noteq> None"
    "case pd ''avg_glucose_level'' of None \<Rightarrow> True | Some v \<Rightarrow> num_val v \<noteq> None"
    "case pd ''bmi'' of None \<Rightarrow> True | Some v \<Rightarrow> num_val v \<noteq> None"
    by (simp_all add: numeric_fields_def)
  have age: "if_elif_gt (dict_get pd ''age'' (VInt 0)) 60 30 45 15
               = Inr (spec_band pd ''age'' spec_age_points)"
    using num(1) by (intro band_points) (auto simp: spec_age_points_def)
  have glucose: "if_elif_gt (dict_get pd ''avg_glucose_level'' (VInt 0)) 150 15 120 8
               = Inr (spec_band pd ''avg_glucose_level'' spec_glucose_points)"
    using num(2) by (intro band_points) (auto simp: spec_glucose_points_def)
  have bmi: "if_elif_gt (dict_get pd ''bmi'' (VInt 0)) 30 10 25 5
               = Inr (spec_band pd ''bmi'' spec_bmi_points)"
    using num(3) by (intro band_points) (auto simp: spec_bmi_points_def)
  show ?thesis
    unfolding calculate_stroke_risk_def age glucose bmi flag_points
    using smoking_points [of pd]
    by (simp add: spec_score_def Let_def min.commute)
qed

text \<open>
  C1. On every input whose age, glucose level and bmi are numbers when present
  (the documented domain is of that kind), \<open>calculate_stroke_risk\<close> returns the
  documented additive table, clamped to at most 100 and never negative; an absent
  field contributes nothing. At the boundaries: age 45 gives 0 and age 60 gives 15,
  glucose 120 gives 0 and glucose 150 gives 8, bmi 25 gives 0 and bmi 30 gives 5.
\<close>

theorem calculate_stroke_risk_table:
  assumes "numeric_fields pd"
  shows "calculate_stroke_risk pd = Inr (spec_score pd)
         \<and> 0 \<le> spec_score pd \<and> spec_score pd \<le> 100
         \<and> calculate_stroke_risk Map.empty = Inr 0
         \<and> calculate_stroke_risk [''age'' \<mapsto> VInt 45] = Inr 0
         \<and> calculate_stroke_risk [''age'' \<mapsto> VInt 60] = Inr 15
         \<and> calculate_stroke_risk [''avg_glucose_level'' \<mapsto> VFloat 120] = Inr 0
         \<and> calculate_stroke_risk [''avg_glucose_level'' \<mapsto> VFloat 150] = Inr 8
         \<and> calculate_stroke_risk [''bmi'' \<mapsto> VFloat 25] = Inr 0
         \<and> calculate_stroke_risk [''bmi'' \<mapsto> VFloat 30] = Inr 5"
proof -
  have boundary:
    "calculate_stroke_risk Map.empty = Inr 0"
    "calculate_stroke_risk [''age'' \<mapsto> VInt 45] = Inr 0"
    "calculate_stroke_risk [''age'' \<mapsto> VInt 60] = Inr 15"
    "calculate_stroke_risk [''avg_glucose_level'' \<mapsto> VFloat 120] = Inr 0"
    "calculate_stroke_risk [''avg_glucose_level'' \<mapsto> VFloat 150] = Inr 8"
    "calculate_stroke_risk [''bmi'' \<mapsto> VFloat 25] = Inr 0"
    "calculate_stroke_risk [''bmi'' \<mapsto> VFloat 30] = Inr 5"
    by (simp_all add: calculate_stroke_risk_def if_elif_gt_def dict_get_def)
  from calculate_stroke_risk_refines [OF assms] spec_score_range [of pd] boundary
  show ?thesis by simp
qed

theorem calculate_stroke_risk_table_witness:
  "numeric_fields scenario_patient \<and> calculate_stroke_risk scenario_patient = Inr 73"
proof -
  have dom: "numeric_fields scenario_patient"
    by (simp add: numeric_fields_def scenario_patient_def)
  have "spec_score scenario_patient = 73"
    by (simp add: spec_score_def spec_band_def spec_flag_def spec_smoking_points_def
        spec_age_points_def spec_glucose_points_def spec_bmi_points_def
        scenario_patient_def)
  with calculate_stroke_risk_table [OF dom] dom show ?thesis by simp
qed

text \<open>
  C3. \<open>get_risk_level\<close> is a step function of the integer score: high exactly
  from 50, medium exactly from 25 up to 49, low exactly below 25; the variant of
  models/patient.py, which reads the thresholds from the configuration defaults,
  agrees with it; and a smaller score never gets a higher tier than a larger one.
\<close>

theorem get_risk_level_step:
  "(get_risk_level s = ''high'' \<longleftrightarrow> s \<ge> 50)
   \<and> (get_risk_level s = ''medium'' \<longleftrightarrow> 25 \<le> s \<and> s < 50)
   \<and> (get_risk_level s = ''low'' \<longleftrightarrow> s < 25)
   \<and> PatientRecord_get_risk_level s = get_risk_level s
   \<and> (s1 < s2 \<longrightarrow> tier_rank (get_risk_level s1) \<le> tier_rank (get_risk_level s2))"
  by (auto simp: get_risk_level_def PatientRecord_get_risk_level_def tier_rank_def
      STROKE_RISK_THRESHOLD_HIGH_def STROKE_RISK_THRESHOLD_MEDIUM_def)

theorem get_risk_level_step_witness:
  "get_risk_level 50 = ''high'' \<and> get_risk_level 49 = ''medium''
   \<and> get_risk_level 24 = ''low''
   \<and> (24::int) < 25
   \<and> tier_rank (get_risk_level 24) < tier_rank (get_risk_level 25)
   \<and> tier_rank (get_risk_level 25) < tier_rank (get_risk_level 50)"
proof -
  have rank: "tier_rank ''low'' < tier_rank ''medium''"
    "tier_rank ''medium'' < tier_rank ''high''"
    by (simp_all add: tier_rank_def)
  from get_risk_level_step [of 50 24 25] get_risk_level_step [of 49 24 25]
    get_risk_level_step [of 24 24 25] get_risk_level_step [of 25 24 25] rank
  show ?thesis by simp
qed

section \<open>Properties of the patient store\<close>

lemma setattr_items_frame:
  "setattr_items E patch attached p = Inr (attached', p') \<Longrightarrow> c \<notin> fst ` set patch \<Longrightarrow>
   p' c = p c"
proof (induction patch arbitrary: attached p)
  case Nil
  then show ?case by simp
next
  case (Cons kv patch)
  obtain k v where kv: "kv = (k, v)" by (cases kv)
  from Cons.prems(2) kv have ne: "c \<noteq> k" and rest: "c \<notin> fst ` set patch"
    by auto
  show ?case
  proof (cases "hasattr_patient E k")
    case False
    with Cons.prems(1) kv have "setattr_items E patch attached p = Inr (attached', p')"
      by simp
    then show ?thesis
      using rest by (rule Cons.IH)
  next
    case True
    with Cons.prems(1) kv obtain a1 p1 where
      step: "setattr_patient E attached p k v = Inr (a1, p1)"
      and tail: "setattr_items E patch a1 p1 = Inr (attached', p')"
      by (auto split: sum.splits)
    from step ne have "p1 c = p c"
      by (auto simp: setattr_patient_def split: if_splits attr_effect.splits)
    moreover from tail rest have "p' c = p1 c"
      by (rule Cons.IH)
    ultimately show ?thesis by simp
  qed
qed

lemma setattr_items_filter:
  "setattr_items E (filter (\<lambda>(k, v). hasattr_patient E k) patch) attached p
   = setattr_items E patch attached p"
  by (induction patch arbitrary: attached p) (auto split: sum.splits)

lemma bind_columns_frame:
  "bind_columns E written cs p = Inr stored \<Longrightarrow> \<not> written c \<Longrightarrow> stored c = p c"
proof (induction cs arbitrary: p)
  case Nil
  then show ?case by simp
next
  case (Cons c' cs)
  show ?case
  proof (cases "written c'")
    case False
    with Cons.prems(1) have "bind_columns E written cs p = Inr stored"
      by simp
    then show ?thesis
      using Cons.prems(2) by (rule Cons.IH)
  next
    case True
    with Cons.prems(1) obtain v where
      tail: "bind_columns E written cs (p(c' := v)) = Inr stored"
      by (auto split: bind_result.splits)
    from True Cons.prems(2) have "c \<noteq> c'" by auto
    with Cons.IH [OF tail Cons.prems(2)] show ?thesis by simp
  qed
qed

lemma bind_columns_same:
  "(\<And>c. c \<in> set cs \<Longrightarrow> written c \<Longrightarrow> db_bind E c (p c) = Bound (p c)) \<Longrightarrow>
   bind_columns E written cs p = Inr p"
  by (induction cs) simp_all

lemma bind_columns_Bound:
  "distinct cs \<Longrightarrow>
   (\<And>c. c \<in> set cs \<Longrightarrow> written c \<Longrightarrow> db_bind E c (p c) = Bound (f c)) \<Longrightarrow>
   bind_columns E written cs p = Inr (\<lambda>c. if c \<in> set cs \<and> written c then f c else p c)"
proof (induction cs arbitrary: p)
  case Nil
  then show ?case by simp
next
  case (Cons c' cs)
  from Cons.prems(1) have fresh: "c' \<notin> set cs" and dist: "distinct cs"
    by simp_all
  show ?case
  proof (cases "written c'")
    case False
    have "bind_columns E written cs p
            = Inr (\<lambda>c. if c \<in> set cs \<and> written c then f c else p c)"
      using dist Cons.prems(2) by (intro Cons.IH) simp_all
    with False show ?thesis
      by (auto simp: fun_eq_iff)
  next
    case True
    with Cons.prems(2) have here: "db_bind E c' (p c') = Bound (f c')"
      by simp
    have "bind_columns E written cs (p(c' := f c'))
            = Inr (\<lambda>c. if c \<in> set cs \<and> written c then f c else (p(c' := f c')) c)"
      using dist fresh Cons.prems(2) by (intro Cons.IH) auto
    with True here show ?thesis
      by (auto simp: fun_eq_iff)
  qed
qed

lemma flush_patient_frame:
  "flush_patient E written others p = Inr stored \<Longrightarrow> \<not> written c \<Longrightarrow> stored c = p c"
  by (auto simp: flush_patient_def split: sum.splits if_splits intro: bind_columns_frame)

lemma dict_update_cong:
  "d k = d' k \<Longrightarrow> dict_update d patch k = dict_update d' patch k"
proof (induction patch arbitrary: d d')
  case Nil
  then show ?case by (simp add: dict_update_def)
next
  case (Cons kv patch)
  obtain k' v' where kv: "kv = (k', v')" by (cases kv)
  from Cons.prems have "(d(k' \<mapsto> v')) k = (d'(k' \<mapsto> v')) k" by simp
  then have "dict_update (d(k' \<mapsto> v')) patch k = dict_update (d'(k' \<mapsto> v')) patch k"
    by (rule Cons.IH)
  then show ?case by (simp add: kv dict_update_def)
qed

lemma dict_update_filter:
  "P k \<Longrightarrow> dict_update d (filter (\<lambda>(k, v). P k) patch) k = dict_update d patch k"
proof (induction patch arbitrary: d)
  case Nil
  then show ?case by simp
next
  case (Cons kv patch)
  obtain k' v' where kv: "kv = (k', v')" by (cases kv)
  show ?case
  proof (cases "P k'")
    case True
    with Cons kv show ?thesis by (simp add: dict_update_def)
  next
    case False
    with Cons.prems have ne: "k' \<noteq> k" by auto
    have "dict_update d (kv # patch) k = dict_update (d(k' \<mapsto> v')) patch k"
      by (simp add: kv dict_update_def)
    also have "\<dots> = dict_update d patch k"
      using ne by (intro dict_update_cong) simp
    finally show ?thesis
      using False kv Cons.IH [OF Cons.prems] by simp
  qed
qed

lemma calculate_stroke_risk_cong:
  assumes "d ''age'' = d' ''age''" "d ''hypertension'' = d' ''hypertension''"
    "d ''heart_disease'' = d' ''heart_disease''"
    "d ''avg_glucose_level'' = d' ''avg_glucose_level''"
    "d ''bmi'' = d' ''bmi''" "d ''smoking_status'' = d' ''smoking_status''"
    "d ''stroke'' = d' ''stroke''"
  shows "calculate_stroke_risk d = calculate_stroke_risk d'"
proof -
  have "dict_get d ''age'' (VInt 0) = dict_get d' ''age'' (VInt 0)"
    "dict_get d ''hypertension'' (VInt 0) = dict_get d' ''hypertension'' (VInt 0)"
    "dict_get d ''heart_disease'' (VInt 0) = dict_get d' ''heart_disease'' (VInt 0)"
    "dict_get d ''avg_glucose_level'' (VInt 0) = dict_get d' ''avg_glucose_level'' (VInt 0)"
    "dict_get d ''bmi'' (VInt 0) = dict_get d' ''bmi'' (VInt 0)"
    "dict_get d ''smoking_status'' (VStr ''Unknown'')
       = dict_get d' ''smoking_status'' (VStr ''Unknown'')"
    "dict_get d ''stroke'' (VInt 0) = dict_get d' ''stroke'' (VInt 0)"
    by (simp_all only: dict_get_def assms)
  then show ?thesis
    by (simp only: calculate_stroke_risk_def)
qed

lemma hasattr_column: "c \<in> set patient_columns \<Longrightarrow> hasattr_patient E c"
  by (simp add: hasattr_patient_def)

lemma key_of_filter:
  "hasattr_patient E k \<Longrightarrow>
   k \<in> fst ` set (filter (\<lambda>(k, v). hasattr_patient E k) patch) \<longleftrightarrow> k \<in> fst ` set patch"
  by (induction patch) auto

lemma risk_fields_columns: "set risk_fields \<subseteq> set patient_columns"
  by (simp add: risk_fields_def patient_columns_def)

lemma risk_field_of_filter:
  "list_ex (\<lambda>field. field \<in> fst ` set (filter (\<lambda>(k, v). hasattr_patient E k) patch)) risk_fields
   = list_ex (\<lambda>field. field \<in> fst ` set patch) risk_fields"
proof -
  have "\<And>f. f \<in> set risk_fields \<Longrightarrow> hasattr_patient E f"
    using risk_fields_columns hasattr_column by blast
  then have "\<And>f. f \<in> set risk_fields \<Longrightarrow>
     (f \<in> fst ` set (filter (\<lambda>(k, v). hasattr_patient E k) patch)) = (f \<in> fst ` set patch)"
    by (rule key_of_filter)
  then show ?thesis
    unfolding list_ex_iff by blast
qed

lemma to_dict_of_filter:
  "''to_dict'' \<in> fst ` set (filter (\<lambda>(k, v). hasattr_patient E k) patch)
   \<longleftrightarrow> ''to_dict'' \<in> fst ` set patch"
  by (rule key_of_filter) (simp add: hasattr_patient_def)

lemma calculate_of_filter:
  "calculate_stroke_risk (dict_update d (filter (\<lambda>(k, v). hasattr_patient E k) patch))
   = calculate_stroke_risk (dict_update d patch)"
proof -
  have col: "\<And>k. k \<in> set patient_columns \<Longrightarrow>
      dict_update d (filter (\<lambda>(k, v). hasattr_patient E k) patch) k = dict_update d patch k"
    using dict_update_filter [of "hasattr_patient E"] hasattr_column by blast
  show ?thesis
    by (rule calculate_stroke_risk_cong; rule col; simp add: patient_columns_def)
qed

lemma update_patient_drop_unknown:
  "update_patient_sqlite E now tbl patient_id (filter (\<lambda>(k, v). hasattr_patient E k) patch)
   = update_patient_sqlite E now tbl patient_id patch"
  by (simp only: update_patient_sqlite_def risk_field_of_filter to_dict_of_filter
      setattr_items_filter calculate_of_filter)

lemma update_patient_frame_aux:
  assumes "update_patient_sqlite E now tbl patient_id update_data = Inr (r, tbl')"
    and "query_get tbl (coerce_sqlite_id E patient_id) = Some patient"
  shows "r \<and> (\<exists>patient'.
            tbl' = replace_row (coerce_sqlite_id E patient_id) patient' tbl
            \<and> (\<forall>c. c \<notin> fst ` set update_data \<longrightarrow>
                   c \<notin> {''stroke_risk'', ''risk_level'', ''updated_at''} \<longrightarrow>
                   patient' c = patient c))"
proof -
  let ?pid = "coerce_sqlite_id E patient_id"
  define risk_step where "risk_step attached patient1 =
     (if list_ex (\<lambda>field. field \<in> fst ` set update_data) risk_fields
      then (if ''to_dict'' \<in> fst ` set update_data then Inl TypeError
            else case PatientSQLite_to_dict E patient1 of
                   Inl e \<Rightarrow> Inl e
                 | Inr d \<Rightarrow>
                     (case calculate_stroke_risk (dict_update d update_data) of
                        Inl e \<Rightarrow> Inl e
                      | Inr stroke_risk \<Rightarrow>
                          if \<not> attached then Inl AttributeError
                          else Inr (patient1
                            (''stroke_risk'' := VInt stroke_risk,
                             ''risk_level'' := VStr (get_risk_level stroke_risk)))))
      else Inr patient1)" for attached :: bool and patient1 :: patient_row
  define commit where "commit patient3 =
     (case flush_patient E (\<lambda>c. patient3 c \<noteq> patient c)
             (filter (\<lambda>q. q ''id'' \<noteq> ?pid) tbl) patient3 of
        Inl e \<Rightarrow> Inl e
      | Inr stored \<Rightarrow> Inr (True, replace_row ?pid stored tbl))" for patient3
  have "update_patient_sqlite E now tbl patient_id update_data =
     (case setattr_items E update_data True patient of
        Inl e \<Rightarrow> Inl e
      | Inr (attached, patient1) \<Rightarrow>
          (case risk_step attached patient1 of
             Inl e \<Rightarrow> Inl e
           | Inr patient2 \<Rightarrow>
               if \<not> attached then Inl AttributeError
               else commit (patient2(''updated_at'' := VTime now))))"
    by (simp only: update_patient_sqlite_def Let_def assms(2) option.case risk_step_def
        commit_def)
  with assms(1) obtain attached patient1 patient2 where
    loop: "setattr_items E update_data True patient = Inr (attached, patient1)"
    and step: "risk_step attached patient1 = Inr patient2"
    and committed: "commit (patient2(''updated_at'' := VTime now)) = Inr (r, tbl')"
    by (auto split: sum.splits if_splits)
  from step have risk: "c \<notin> {''stroke_risk'', ''risk_level''} \<Longrightarrow> patient2 c = patient1 c"
    for c
    by (auto simp: risk_step_def split: sum.splits if_splits)
  let ?p3 = "patient2(''updated_at'' := VTime now)"
  from committed obtain stored where
    flush: "flush_patient E (\<lambda>c. ?p3 c \<noteq> patient c)
              (filter (\<lambda>q. q ''id'' \<noteq> ?pid) tbl) ?p3 = Inr stored"
    and result: "r" "tbl' = replace_row ?pid stored tbl"
    unfolding commit_def by (cases "flush_patient E (\<lambda>c. ?p3 c \<noteq> patient c)
              (filter (\<lambda>q. q ''id'' \<noteq> ?pid) tbl) ?p3") simp_all
  have "stored c = patient c"
    if "c \<notin> fst ` set update_data" "c \<notin> {''stroke_risk'', ''risk_level'', ''updated_at''}"
    for c
  proof -
    from loop that(1) have "patient1 c = patient c"
      by (rule setattr_items_frame)
    with risk [of c] that(2) have same: "?p3 c = patient c"
      by simp
    then have "\<not> (\<lambda>c. ?p3 c \<noteq> patient c) c"
      by simp
    with flush have "stored c = ?p3 c"
      by (rule flush_patient_frame)
    with same show ?thesis by simp
  qed
  with result show ?thesis by blast
qed

lemma healthy_patient_fields:
  "healthy_patient ''id'' = VInt 1"
  "healthy_patient ''gender'' = VStr ''Female''"
  "healthy_patient ''age'' = VInt 30"
  "healthy_patient ''hypertension'' = VInt 0"
  "healthy_patient ''heart_disease'' = VInt 0"
  "healthy_patient ''ever_married'' = VStr ''No''"
  "healthy_patient ''work_type'' = VStr ''Private''"
  "healthy_patient ''Residence_type'' = VStr ''Urban''"
  "healthy_patient ''avg_glucose_level'' = VFloat 90"
  "healthy_patient ''bmi'' = VFloat 22"
  "healthy_patient ''smoking_status'' = VStr ''Never smoked''"
  "healthy_patient ''stroke'' = VInt 0"
  "healthy_patient ''stroke_risk'' = VFloat 0"
  "healthy_patient ''risk_level'' = VStr ''low''"
  "healthy_patient ''created_by'' = VInt 7"
  "healthy_patient ''assigned_doctor_id'' = VNone"
  "healthy_patient ''created_at'' = VTime 100"
  "healthy_patient ''updated_at'' = VTime 100"
  by (simp_all add: healthy_patient_def row_of_def)

lemma healthy_patient_other:
  "c \<notin> set patient_columns \<Longrightarrow> healthy_patient c = VNone"
  by (simp add: healthy_patient_def row_of_def patient_columns_def)

lemma orm_attr_demo:
  "orm_attr demo_env k
     = (k \<in> set [''query'', ''metadata'', ''_sa_instance_state'', ''__class__''])"
  by (simp add: demo_env_def)

lemma demo_bind_examples:
  "db_bind demo_env ''id'' (VInt 1) = Bound (VInt 1)"
  "db_bind demo_env ''gender'' (VStr ''Female'') = Bound (VStr ''Female'')"
  "db_bind demo_env ''age'' (VInt 30) = Bound (VInt 30)"
  "db_bind demo_env ''age'' (VInt 70) = Bound (VInt 70)"
  "db_bind demo_env ''hypertension'' (VInt 0) = Bound (VInt 0)"
  "db_bind demo_env ''heart_disease'' (VInt 0) = Bound (VInt 0)"
  "db_bind demo_env ''ever_married'' (VStr ''No'') = Bound (VStr ''No'')"
  "db_bind demo_env ''work_type'' (VStr ''Private'') = Bound (VStr ''Private'')"
  "db_bind demo_env ''Residence_type'' (VStr ''Urban'') = Bound (VStr ''Urban'')"
  "db_bind demo_env ''avg_glucose_level'' (VFloat 90) = Bound (VFloat 90)"
  "db_bind demo_env ''bmi'' (VFloat 22) = Bound (VFloat 22)"
  "db_bind demo_env ''smoking_status'' (VStr ''Never smoked'') = Bound (VStr ''Never smoked'')"
  "db_bind demo_env ''stroke'' (VInt 0) = Bound (VInt 0)"
  "db_bind demo_env ''stroke'' (VInt 1) = Bound (VInt 1)"
  "db_bind demo_env ''stroke_risk'' (VFloat 0) = Bound (VFloat 0)"
  "db_bind demo_env ''stroke_risk'' (VInt 30) = Bound (VFloat 30)"
  "db_bind demo_env ''risk_level'' (VStr ''low'') = Bound (VStr ''low'')"
  "db_bind demo_env ''risk_level'' (VStr ''medium'') = Bound (VStr ''medium'')"
  "db_bind demo_env ''created_by'' (VInt 7) = Bound (VInt 7)"
  "db_bind demo_env ''assigned_doctor_id'' VNone = Bound VNone"
  "db_bind demo_env ''created_at'' (VTime 100) = Bound (VTime 100)"
  "db_bind demo_env ''updated_at'' (VTime 100) = Bound (VTime 100)"
  "db_bind demo_env ''updated_at'' (VTime 200) = Bound (VTime 200)"
  by (simp_all add: demo_env_def demo_bind_def demo_number_def)

text \<open>
  A patch that overwrites the ORM state of the object, before or after a column,
  makes the update raise \<open>AttributeError\<close>, and an integer beyond 64 bits makes the
  commit raise \<open>OverflowError\<close>; nothing is stored in either case.
\<close>

lemma update_detached_raises:
  "update_patient_sqlite demo_env 200 [healthy_patient] (VInt 1)
       [(''_sa_instance_state'', VInt 5), (''stroke'', VInt 1)] = Inl AttributeError"
  "update_patient_sqlite demo_env 200 [healthy_patient] (VInt 1)
       [(''stroke'', VInt 1), (''_sa_instance_state'', VInt 5)] = Inl AttributeError"
  by (simp_all add: update_patient_sqlite_def Let_def query_get_def healthy_patient_fields
      hasattr_patient_def setattr_patient_def patient_columns_def risk_fields_def
      orm_attr_demo demo_env_def)

lemma update_overflow_raises:
  "update_patient_sqlite demo_env 200 [healthy_patient] (VInt 1)
       [(''stroke'', VInt (2 ^ 63))] = Inl OverflowError"
  by (simp add: update_patient_sqlite_def Let_def query_get_def healthy_patient_fields
      hasattr_patient_def setattr_patient_def patient_columns_def risk_fields_def
      flush_patient_def demo_env_def demo_bind_def demo_number_def)

text \<open>
  C2 (the code departs from the claim). The score depends on \<open>stroke\<close>, but
  \<open>stroke\<close> is not among the fields whose presence in a patch triggers the
  recomputation. Updating the patient without risk factors with the patch
  \<open>{'stroke': 1}\<close> succeeds and stores \<open>stroke = 1\<close> beside the old
  \<open>stroke_risk = 0\<close> and \<open>risk_level = 'low'\<close>, while the scoring function gives the
  stored record 30, which is \<open>'medium'\<close>.
\<close>

theorem update_stroke_only_keeps_stale_risk:
  "update_patient_sqlite demo_env 200 [healthy_patient] (VInt 1) [(''stroke'', VInt 1)]
     = Inr (True, [healthy_patient(''stroke'' := VInt 1, ''updated_at'' := VTime 200)])
   \<and> (healthy_patient(''stroke'' := VInt 1, ''updated_at'' := VTime 200)) ''stroke_risk''
       = VFloat 0
   \<and> (healthy_patient(''stroke'' := VInt 1, ''updated_at'' := VTime 200)) ''risk_level''
       = VStr ''low''
   \<and> (case PatientSQLite_to_dict demo_env
              (healthy_patient(''stroke'' := VInt 1, ''updated_at'' := VTime 200)) of
         Inl e \<Rightarrow> Inl e
       | Inr d \<Rightarrow> calculate_stroke_risk d) = Inr 30
   \<and> get_risk_level 30 = ''medium''"
proof -
  let ?p = "healthy_patient(''stroke'' := VInt 1, ''updated_at'' := VTime 200)"
  have "\<forall>c\<in>set patient_columns. db_bind demo_env c (?p c) = Bound (?p c)"
    by (simp add: patient_columns_def healthy_patient_fields demo_bind_examples)
  then have "bind_columns demo_env written patient_columns ?p = Inr ?p" for written
    by (intro bind_columns_same) simp
  then have fl: "flush_patient demo_env written [] ?p = Inr ?p" for written
    by (simp add: flush_patient_def not_null_columns_def healthy_patient_fields)
  have upd: "update_patient_sqlite demo_env 200 [healthy_patient] (VInt 1) [(''stroke'', VInt 1)]
     = Inr (True, [?p])"
    by (simp add: update_patient_sqlite_def Let_def query_get_def healthy_patient_fields
        hasattr_patient_def setattr_patient_def patient_columns_def risk_fields_def fl)
  have stored: "?p ''stroke_risk'' = VFloat 0" "?p ''risk_level'' = VStr ''low''"
    by (simp_all add: healthy_patient_fields)
  have score: "(case PatientSQLite_to_dict demo_env ?p of
         Inl e \<Rightarrow> Inl e
       | Inr d \<Rightarrow> calculate_stroke_risk d) = Inr 30"
    by (simp add: PatientSQLite_to_dict_def healthy_patient_fields calculate_stroke_risk_def
        dict_get_def if_elif_gt_def)
  have "get_risk_level 30 = ''medium''"
    by (simp add: get_risk_level_def)
  with upd stored score show ?thesis by simp
qed

text \<open>
  C10. When \<open>update_patient\<close> succeeds on an existing patient, the flag is true, the
  table differs only in that patient's row, and in that row every column that is not
  a key of the patch keeps its value, except \<open>stroke_risk\<close>, \<open>risk_level\<close> and
  \<open>updated_at\<close>; so \<open>id\<close>, \<open>created_at\<close> and \<open>created_by\<close> change only when the
  patch names them. Names in the patch that are not attributes of the patient are
  ignored and not rejected: the call on the patch without them has the same result.
\<close>

theorem update_patient_frame:
  assumes "update_patient_sqlite E now tbl patient_id update_data = Inr (r, tbl')"
    and "query_get tbl (coerce_sqlite_id E patient_id) = Some patient"
  shows "r \<and> (\<exists>patient'.
            tbl' = replace_row (coerce_sqlite_id E patient_id) patient' tbl
            \<and> (\<forall>c. c \<notin> fst ` set update_data \<longrightarrow>
                   c \<notin> {''stroke_risk'', ''risk_level'', ''updated_at''} \<longrightarrow>
                   patient' c = patient c))
         \<and> update_patient_sqlite E now tbl patient_id
               (filter (\<lambda>(k, v). hasattr_patient E k) update_data) = Inr (r, tbl')"
  using update_patient_frame_aux [OF assms] assms(1)
  by (simp only: update_patient_drop_unknown)

theorem update_patient_frame_witness:
  "update_patient_sqlite demo_env 200 [healthy_patient] (VInt 1)
       [(''age'', VInt 70), (''nickname'', VStr ''Jo'')]
     = Inr (True, [healthy_patient(''age'' := VInt 70, ''stroke_risk'' := VFloat 30,
                     ''risk_level'' := VStr ''medium'', ''updated_at'' := VTime 200)])
   \<and> query_get [healthy_patient] (coerce_sqlite_id demo_env (VInt 1)) = Some healthy_patient
   \<and> update_patient_sqlite demo_env 200 [healthy_patient] (VInt 1) [(''age'', VInt 70)]
     = Inr (True, [healthy_patient(''age'' := VInt 70, ''stroke_risk'' := VFloat 30,
                     ''risk_level'' := VStr ''medium'', ''updated_at'' := VTime 200)])"
proof -
  let ?p = "healthy_patient(''age'' := VInt 70, ''stroke_risk'' := VInt 30,
              ''risk_level'' := VStr ''medium'', ''updated_at'' := VTime 200)"
  let ?q = "healthy_patient(''age'' := VInt 70, ''stroke_risk'' := VFloat 30,
              ''risk_level'' := VStr ''medium'', ''updated_at'' := VTime 200)"
  have fl: "flush_patient demo_env written [] ?p = Inr ?q" if "written ''stroke_risk''"
    for written
  proof -
    have "\<forall>c\<in>set patient_columns. db_bind demo_env c (?p c) = Bound (?q c)"
      by (simp add: patient_columns_def healthy_patient_fields demo_bind_examples)
    moreover have "distinct patient_columns"
      by (simp add: patient_columns_def)
    ultimately have "bind_columns demo_env written patient_columns ?p
        = Inr (\<lambda>c. if c \<in> set patient_columns \<and> written c then ?q c else ?p c)"
      by (intro bind_columns_Bound) simp_all
    moreover have "?q c = ?p c" if "c \<noteq> ''stroke_risk''" for c
      using that by simp
    then have "(\<lambda>c. if c \<in> set patient_columns \<and> written c then ?q c else ?p c) = ?q"
      using \<open>written ''stroke_risk''\<close> by (auto simp: fun_eq_iff patient_columns_def)
    ultimately show ?thesis
      by (simp add: flush_patient_def not_null_columns_def healthy_patient_fields)
  qed
  have upd: "update_patient_sqlite demo_env 200 [healthy_patient] (VInt 1)
       [(''age'', VInt 70), (''nickname'', VStr ''Jo'')] = Inr (True, [?q])"
    by (simp add: update_patient_sqlite_def Let_def query_get_def healthy_patient_fields
        hasattr_patient_def setattr_patient_def patient_columns_def risk_fields_def
        orm_attr_demo PatientSQLite_to_dict_def dict_update_def calculate_stroke_risk_def
        dict_get_def if_elif_gt_def get_risk_level_def fl)
  have found: "query_get [healthy_patient] (coerce_sqlite_id demo_env (VInt 1))
       = Some healthy_patient"
    by (simp add: query_get_def healthy_patient_fields)
  have known: "filter (\<lambda>(k, v). hasattr_patient demo_env k)
       [(''age'', VInt 70), (''nickname'', VStr ''Jo'')] = [(''age'', VInt 70)]"
    by (simp add: hasattr_patient_def patient_columns_def orm_attr_demo)
  from update_patient_frame [OF upd found] upd found known show ?thesis by simp
qed

section \<open>Properties of registration and login\<close>

lemma security_logs_log_security_event:
  "security_logs (log_security_event E st uid event_type description ip) = security_logs st"
  by (simp add: log_security_event_def)

lemma security_logs_logger_error:
  "security_logs (logger_error E st what e) = security_logs st"
  by (simp add: logger_error_def)

lemma security_logs_update_last_login:
  "security_logs (update_last_login now st uid) = security_logs st"
  by (simp add: update_last_login_def)

lemma login_security_logs:
  "security_logs (snd (login E now remote_addr st body)) = security_logs st"
  by (simp add: login_def Let_def security_logs_log_security_event
      security_logs_logger_error security_logs_update_last_login
      split: option.split sum.split bool.split)

lemma login_failed_response:
  assumes "map_of body ''username'' = Some (VStr name)" "name \<noteq> []"
    and "sanitize_input E (VStr name) = VStr name"
    and "map_of body ''password'' = Some (VStr pw)" "pw \<noteq> []"
    and "case find_by_username st name of
           None \<Rightarrow> True
         | Some u \<Rightarrow> \<not> check_password_hash E (password_hash u) pw"
  shows "fst (login E now remote_addr st body) = message ''Invalid username or password'' 401"
proof -
  from assms(1) have body: "body \<noteq> []" by auto
  show ?thesis
  proof (cases "find_by_username st name")
    case None
    with assms body show ?thesis
      by (simp add: login_def Let_def dict_get_def)
  next
    case (Some u)
    with assms(6) have "check_password E u (VStr pw) = Inr False"
      by (simp add: check_password_def)
    with Some assms body show ?thesis
      by (simp add: login_def Let_def dict_get_def)
  qed
qed

text \<open>
  A JSON array of fewer than eight members as password is too short, like a short
  string; a number is not something \<open>len\<close> accepts.
\<close>

lemma validate_password_not_a_string:
  "validate_password (VList [VInt 1, VInt 2])
     = Inr (False, ''Password must be at least 8 characters long'')"
  "validate_password (VInt 12345678) = Inl TypeError"
  by (simp_all add: validate_password_def)

lemma find_None_filter: "find P xs = None \<longleftrightarrow> filter P xs = []"
  by (induction xs) auto

lemma register_created:
  assumes "register E now remote_addr st body = ((b, 201), st')"
  shows "find_by_username st (sanitized E (dict_get (map_of body) ''username'' VNone)) = None
       \<and> find_by_email st (sanitized E (dict_get (map_of body) ''email'' VNone)) = None
       \<and> (\<exists>u. username u = sanitized E (dict_get (map_of body) ''username'' VNone)
              \<and> email u = sanitized E (dict_get (map_of body) ''email'' VNone)
              \<and> users st' = users st @ [u])"
  using assms
  by (auto simp: register_def Let_def message_def create_user_def log_security_event_def
      logger_error_def split: option.splits sum.splits if_splits prod.splits)

text \<open>
  C4 (the code departs from the claim). No outcome of \<open>login\<close> adds a row to the
  table \<open>security_logs\<close>: the route reports through \<open>log_security_event\<close>, which
  writes a line to the application logger, and nothing in the application calls
  \<open>SecurityLog.log_event\<close>.
\<close>

theorem login_never_writes_security_log:
  "security_logs (snd (login E now remote_addr st body)) = security_logs st"
  by (rule login_security_logs)

text \<open>
  A deactivated account with the right password is answered without a line on the
  logger either; a wrong password on an active account leaves one line on the
  logger and the table as it was.
\<close>

theorem login_never_writes_security_log_witness:
  "login demo_env 500 (VStr ''10.0.0.1'') clinic
       [(''username'', VStr ''carol''), (''password'', VStr ''Secret456'')]
     = (message ''Account is deactivated'' 401, clinic)
   \<and> security_logs (snd (login demo_env 500 (VStr ''10.0.0.1'') clinic
         [(''username'', VStr ''alice''), (''password'', VStr ''guess'')])) = []
   \<and> length (app_log (snd (login demo_env 500 (VStr ''10.0.0.1'') clinic
         [(''username'', VStr ''alice''), (''password'', VStr ''guess'')]))) = 1"
proof -
  have deactivated: "login demo_env 500 (VStr ''10.0.0.1'') clinic
       [(''username'', VStr ''carol''), (''password'', VStr ''Secret456'')]
     = (message ''Account is deactivated'' 401, clinic)"
    by (simp add: login_def Let_def dict_get_def sanitize_input_def sanitized_def
        demo_env_def find_by_username_def clinic_def alice_def carol_def
        check_password_def)
  have line: "length (app_log (snd (login demo_env 500 (VStr ''10.0.0.1'') clinic
         [(''username'', VStr ''alice''), (''password'', VStr ''guess'')]))) = 1"
    by (simp add: login_def Let_def dict_get_def sanitize_input_def sanitized_def
        demo_env_def find_by_username_def clinic_def alice_def carol_def
        check_password_def log_security_event_def)
  have "security_logs clinic = []"
    by (simp add: clinic_def)
  with login_never_writes_security_log [of demo_env 500 "VStr ''10.0.0.1''" clinic
      "[(''username'', VStr ''alice''), (''password'', VStr ''guess'')]"]
    deactivated line
  show ?thesis by simp
qed

text \<open>
  When both passwords are strings, the two failures are answered alike: two login
  attempts with a non-empty username that \<open>sanitize_input\<close> leaves unchanged and a
  non-empty password string, one for a username that does not exist and one for an
  existing username with a password that does not match, get the same response, the
  message \<open>'Invalid username or password'\<close> with status 401.
\<close>

theorem login_failure_uniform:
  assumes "map_of body1 ''username'' = Some (VStr name1)" "name1 \<noteq> []"
    and "sanitize_input E (VStr name1) = VStr name1"
    and "map_of body1 ''password'' = Some (VStr pw1)" "pw1 \<noteq> []"
    and "map_of body2 ''username'' = Some (VStr name2)" "name2 \<noteq> []"
    and "sanitize_input E (VStr name2) = VStr name2"
    and "map_of body2 ''password'' = Some (VStr pw2)" "pw2 \<noteq> []"
    and "find_by_username st1 name1 = None"
    and "find_by_username st2 name2 = Some u"
    and "\<not> check_password_hash E (password_hash u) pw2"
  shows "fst (login E now1 addr1 st1 body1) = fst (login E now2 addr2 st2 body2)
       \<and> fst (login E now1 addr1 st1 body1) = message ''Invalid username or password'' 401"
proof -
  have "fst (login E now1 addr1 st1 body1) = message ''Invalid username or password'' 401"
    using assms(1-5,11)
    by (intro login_failed_response [where name = name1 and pw = pw1]) simp_all
  moreover
  have "fst (login E now2 addr2 st2 body2) = message ''Invalid username or password'' 401"
    using assms(6-10,12,13)
    by (intro login_failed_response [where name = name2 and pw = pw2]) simp_all
  ultimately show ?thesis by simp
qed

theorem login_failure_uniform_witness:
  "find_by_username clinic ''mallory'' = None
   \<and> find_by_username clinic ''alice'' = Some alice
   \<and> \<not> check_password_hash demo_env (password_hash alice) ''guess''
   \<and> fst (login demo_env 500 (VStr ''10.0.0.1'') clinic
         [(''username'', VStr ''mallory''), (''password'', VStr ''guess'')])
     = fst (login demo_env 501 (VStr ''10.0.0.2'') clinic
         [(''username'', VStr ''alice''), (''password'', VStr ''guess'')])"
proof -
  have unknown: "find_by_username clinic ''mallory'' = None"
    and known: "find_by_username clinic ''alice'' = Some alice"
    by (simp_all add: find_by_username_def clinic_def alice_def carol_def)
  have wrong: "\<not> check_password_hash demo_env (password_hash alice) ''guess''"
    by (simp add: demo_env_def alice_def)
  have clean: "sanitize_input demo_env (VStr ''mallory'') = VStr ''mallory''"
    "sanitize_input demo_env (VStr ''alice'') = VStr ''alice''"
    by (simp_all add: sanitize_input_def sanitized_def demo_env_def)
  from login_failure_uniform [of "[(''username'', VStr ''mallory''), (''password'', VStr ''guess'')]"
      "''mallory''" demo_env "''guess''"
      "[(''username'', VStr ''alice''), (''password'', VStr ''guess'')]"
      "''alice''" "''guess''" clinic clinic alice 500 "VStr ''10.0.0.1''" 501 "VStr ''10.0.0.2''"]
    unknown known wrong clean
  show ?thesis by simp
qed

text \<open>
  C8 (the code departs from the claim). A password that is truthy but not a string
  (the JSON number 5, say) is never looked at when the username is unknown, and the
  attempt gets the ordinary 401; for an existing username \<open>check_password\<close> raises on
  it, and the attempt gets 500 ``Internal server error''. The two failure responses
  differ, so the response tells whether the username exists.
\<close>

theorem login_reveals_username:
  assumes "map_of body1 ''username'' = Some (VStr name1)" "name1 \<noteq> []"
    and "sanitize_input E (VStr name1) = VStr name1"
    and "map_of body2 ''username'' = Some (VStr name2)" "name2 \<noteq> []"
    and "sanitize_input E (VStr name2) = VStr name2"
    and "map_of body1 ''password'' = Some password"
    and "map_of body2 ''password'' = Some password"
    and "py_truthy password" and "\<forall>s. password \<noteq> VStr s"
    and "find_by_username st name1 = None"
    and "find_by_username st name2 = Some u"
  shows "fst (login E now1 addr1 st body1) = message ''Invalid username or password'' 401
       \<and> fst (login E now2 addr2 st body2) = message ''Internal server error'' 500
       \<and> fst (login E now1 addr1 st body1) \<noteq> fst (login E now2 addr2 st body2)"
proof -
  from assms(1,4) have body: "body1 \<noteq> []" "body2 \<noteq> []"
    by auto
  have unknown: "fst (login E now1 addr1 st body1) = message ''Invalid username or password'' 401"
    using assms(1,2,3,7,9,11) body(1)
    by (simp add: login_def Let_def dict_get_def)
  from assms(10) have "check_password E u password = Inl TypeError"
    by (cases password) (simp_all add: check_password_def)
  then have known: "fst (login E now2 addr2 st body2) = message ''Internal server error'' 500"
    using assms(4,5,6,8,9,12) body(2)
    by (simp add: login_def Let_def dict_get_def)
  from unknown known show ?thesis
    by (simp add: message_def)
qed

theorem login_reveals_username_witness:
  "fst (login demo_env 500 (VStr ''10.0.0.1'') clinic
         [(''username'', VStr ''mallory''), (''password'', VInt 5)])
     = message ''Invalid username or password'' 401
   \<and> fst (login demo_env 501 (VStr ''10.0.0.1'') clinic
         [(''username'', VStr ''alice''), (''password'', VInt 5)])
     = message ''Internal server error'' 500
   \<and> find_by_username clinic ''mallory'' = None
   \<and> find_by_username clinic ''alice'' = Some alice"
proof -
  have unknown: "find_by_username clinic ''mallory'' = None"
    and known: "find_by_username clinic ''alice'' = Some alice"
    by (simp_all add: find_by_username_def clinic_def alice_def carol_def)
  have clean: "sanitize_input demo_env (VStr ''mallory'') = VStr ''mallory''"
    "sanitize_input demo_env (VStr ''alice'') = VStr ''alice''"
    by (simp_all add: sanitize_input_def sanitized_def demo_env_def)
  from login_reveals_username [of "[(''username'', VStr ''mallory''), (''password'', VInt 5)]"
      "''mallory''" demo_env "[(''username'', VStr ''alice''), (''password'', VInt 5)]"
      "''alice''" "VInt 5" clinic alice 500 "VStr ''10.0.0.1''" 501 "VStr ''10.0.0.1''"]
    unknown known clean
  show ?thesis by simp
qed

text \<open>
  C7. When a registration has succeeded, a second registration request that passes
  the field, email and password checks and has the same username or the same email
  (after \<open>sanitize_input\<close>) is answered with status 409 and leaves the state as
  it was; exactly one stored identity has the first request's username and exactly
  one has its email; and \<open>create_user\<close> itself, called with the second request's
  username and email, returns \<open>None\<close> and stores nothing.
\<close>

theorem register_duplicate_rejected:
  assumes "register E now1 addr1 st body1 = ((b1, 201), st1)"
    and "first_falsy (map_of body2) [''username'', ''email'', ''password'', ''first_name'',
                                     ''last_name'', ''role''] = None"
    and "validate_email E (sanitized E (dict_get (map_of body2) ''email'' VNone))"
    and "validate_password (dict_get (map_of body2) ''password'' VNone) = Inr (True, m)"
    and "sanitized E (dict_get (map_of body2) ''username'' VNone)
           = sanitized E (dict_get (map_of body1) ''username'' VNone)
         \<or> sanitized E (dict_get (map_of body2) ''email'' VNone)
           = sanitized E (dict_get (map_of body1) ''email'' VNone)"
  shows "register E now2 addr2 st1 body2
           = (message (if find_by_username st1
                            (sanitized E (dict_get (map_of body2) ''username'' VNone)) \<noteq> None
                       then ''Username already exists'' else ''Email already exists'') 409,
              st1)
       \<and> length (filter (\<lambda>u. username u = sanitized E (dict_get (map_of body1) ''username'' VNone))
                   (users st1)) = 1
       \<and> length (filter (\<lambda>u. email u = sanitized E (dict_get (map_of body1) ''email'' VNone))
                   (users st1)) = 1
       \<and> create_user E now2 st1 (sanitized E (dict_get (map_of body2) ''username'' VNone))
            (sanitized E (dict_get (map_of body2) ''email'' VNone)) pw rl fname lname ph spec lic
           = (None, st1)"
proof -
  let ?name1 = "sanitized E (dict_get (map_of body1) ''username'' VNone)"
  let ?mail1 = "sanitized E (dict_get (map_of body1) ''email'' VNone)"
  let ?name2 = "sanitized E (dict_get (map_of body2) ''username'' VNone)"
  let ?mail2 = "sanitized E (dict_get (map_of body2) ''email'' VNone)"
  from register_created [OF assms(1)] obtain u where
    fresh: "find_by_username st ?name1 = None" "find_by_email st ?mail1 = None"
    and u: "username u = ?name1" "email u = ?mail1" "users st1 = users st @ [u]"
    by blast
  from fresh have none: "filter (\<lambda>x. username x = ?name1) (users st) = []"
    "filter (\<lambda>x. email x = ?mail1) (users st) = []"
    by (simp_all add: find_by_username_def find_by_email_def find_None_filter)
  have one: "length (filter (\<lambda>x. username x = ?name1) (users st1)) = 1"
    "length (filter (\<lambda>x. email x = ?mail1) (users st1)) = 1"
    using none u by simp_all
  have mem: "u \<in> set (users st1)"
    using u(3) by simp
  from assms(5) have taken: "username u = ?name2 \<or> email u = ?mail2"
    using u(1,2) by auto
  then have dup: "find_by_username st1 ?name2 \<noteq> None \<or> find_by_email st1 ?mail2 \<noteq> None"
    using mem by (auto simp: find_by_username_def find_by_email_def find_None_iff)
  have second: "register E now2 addr2 st1 body2
           = (message (if find_by_username st1 ?name2 \<noteq> None
                       then ''Username already exists'' else ''Email already exists'') 409,
              st1)"
    using dup by (auto simp: register_def Let_def assms(2,3,4))
  have "list_ex (\<lambda>x. username x = ?name2 \<or> email x = ?mail2) (users st1)"
    using taken mem by (auto simp: list_ex_iff)
  then have "create_user E now2 st1 ?name2 ?mail2 pw rl fname lname ph spec lic = (None, st1)"
    by (simp add: create_user_def flush_user_def)
  with second one show ?thesis by simp
qed

theorem register_duplicate_rejected_witness:
  "snd (fst (register demo_env 300 (VStr ''10.0.0.1'') clinic dave_request)) = 201
   \<and> register demo_env 301 (VStr ''10.0.0.1'')
        (snd (register demo_env 300 (VStr ''10.0.0.1'') clinic dave_request)) dave_again
     = (message ''Username already exists'' 409,
        snd (register demo_env 300 (VStr ''10.0.0.1'') clinic dave_request))
   \<and> length (filter (\<lambda>u. username u = ''dave'')
        (users (snd (register demo_env 300 (VStr ''10.0.0.1'') clinic dave_request)))) = 1"
proof -
  let ?first = "register demo_env 300 (VStr ''10.0.0.1'') clinic dave_request"
  have valid1: "validate_password (VStr ''Passw0rdX'') = Inr (True, ''Password is valid'')"
    by (simp add: validate_password_def)
  have valid2: "validate_password (VStr ''An0therPw'') = Inr (True, ''Password is valid'')"
    by (simp add: validate_password_def)
  have status: "snd (fst ?first) = 201"
    by (simp add: register_def Let_def dave_request_def first_falsy_def dict_get_def
        sanitized_def sanitize_input_def demo_env_def valid1 find_by_username_def
        find_by_email_def clinic_def alice_def carol_def create_user_def flush_user_def
        next_user_id_def)
  then have first: "?first = ((fst (fst ?first), 201), snd ?first)"
    by (metis prod.collapse)
  have name1: "sanitized demo_env (dict_get (map_of dave_request) ''username'' VNone) = ''dave''"
    and name2: "sanitized demo_env (dict_get (map_of dave_again) ''username'' VNone) = ''dave''"
    and mail2: "sanitized demo_env (dict_get (map_of dave_again) ''email'' VNone)
                  = ''other@example.org''"
    by (simp_all add: sanitized_def dict_get_def demo_env_def dave_request_def dave_again_def)
  have required: "first_falsy (map_of dave_again)
      [''username'', ''email'', ''password'', ''first_name'', ''last_name'', ''role''] = None"
    by (simp add: first_falsy_def dict_get_def dave_again_def)
  have mail_ok: "validate_email demo_env
      (sanitized demo_env (dict_get (map_of dave_again) ''email'' VNone))"
    by (simp add: mail2) (simp add: demo_env_def)
  have pw_ok: "validate_password (dict_get (map_of dave_again) ''password'' VNone)
      = Inr (True, ''Password is valid'')"
    by (simp add: dict_get_def dave_again_def valid2)
  have same: "sanitized demo_env (dict_get (map_of dave_again) ''username'' VNone)
           = sanitized demo_env (dict_get (map_of dave_request) ''username'' VNone)
         \<or> sanitized demo_env (dict_get (map_of dave_again) ''email'' VNone)
           = sanitized demo_env (dict_get (map_of dave_request) ''email'' VNone)"
    by (simp add: name1 name2)
  note dup = register_duplicate_rejected [OF first required mail_ok pw_ok same,
      of 301 "VStr ''10.0.0.1''" "''pw''" "''patient''" "''D''" "''D''" VNone VNone VNone]
  from dup have one: "length (filter (\<lambda>u. username u = ''dave'') (users (snd ?first))) = 1"
    by (simp add: name1)
  then have "filter (\<lambda>u. username u = ''dave'') (users (snd ?first)) \<noteq> []"
    by auto
  then have "find_by_username (snd ?first) ''dave'' \<noteq> None"
    by (simp add: find_by_username_def find_None_filter)
  with dup status one show ?thesis
    by (simp add: name2)
qed

section \<open>Properties of patient self-registration\<close>

lemma erin_checks:
  "\<exists>reg. self_register_checks demo_env clinic erin_request = Go reg
     \<and> reg_username reg = ''erin'' \<and> reg_email reg = ''erin@example.org''
     \<and> reg_patient reg ''gender'' = Some (VStr ''Female'')
     \<and> reg_patient reg ''age'' = Some (VInt 41)
     \<and> reg_patient reg ''hypertension'' = Some (VInt 0)
     \<and> reg_patient reg ''heart_disease'' = Some (VInt 0)
     \<and> reg_patient reg ''ever_married'' = Some VNone
     \<and> reg_patient reg ''work_type'' = Some (VStr ''Private'')
     \<and> reg_patient reg ''Residence_type'' = Some (VStr ''Urban'')
     \<and> reg_patient reg ''avg_glucose_level'' = Some (VFloat 88)
     \<and> reg_patient reg ''bmi'' = Some (VFloat 24)
     \<and> reg_patient reg ''smoking_status'' = Some (VStr ''Never smoked'')
     \<and> reg_patient reg ''stroke'' = Some (VInt 0)"
  by (simp add: self_register_checks_def Let_def erin_request_def PATIENT_FIELDS_def
      first_falsy_def dict_get_def get_stripped_def demo_env_def sanitize_input_def
      sanitized_def find_by_username_def find_by_email_def clinic_def alice_def carol_def
      validate_password_def convert_patient_numbers_def validate_patient_data_def
      out_of_range_def not_a_flag_def not_one_of_def prepare_patient_payload_def)

lemma bind_columns_errors:
  "bind_columns E written cs p = Inl e \<Longrightarrow> e = StatementError \<or> e = OverflowError"
  by (induction cs arbitrary: p) (auto split: if_splits bind_result.splits)

lemma bind_columns_later:
  "bind_columns E written cs p = Inr stored \<Longrightarrow> c \<notin> set cs \<Longrightarrow> stored c = p c"
proof (induction cs arbitrary: p)
  case Nil
  then show ?case by simp
next
  case (Cons c' cs)
  from Cons.prems(2) have ne: "c \<noteq> c'" and rest: "c \<notin> set cs"
    by auto
  from Cons.prems(1) obtain p' where
    tail: "bind_columns E written cs p' = Inr stored" and same: "p' c = p c"
    using ne by (auto split: if_splits bind_result.splits)
  from tail rest have "stored c = p' c"
    by (rule Cons.IH)
  with same show ?case by simp
qed

lemma bind_columns_value:
  "bind_columns E written cs p = Inr stored \<Longrightarrow> distinct cs \<Longrightarrow> c \<in> set cs \<Longrightarrow>
   written c \<Longrightarrow> db_bind E c (p c) = Bound (stored c)"
proof (induction cs arbitrary: p)
  case Nil
  then show ?case by simp
next
  case (Cons c' cs)
  from Cons.prems(2) have fresh: "c' \<notin> set cs" and dist: "distinct cs"
    by simp_all
  show ?case
  proof (cases "c = c'")
    case True
    with Cons.prems(1,4) obtain v where
      here: "db_bind E c (p c) = Bound v"
      and tail: "bind_columns E written cs (p(c := v)) = Inr stored"
      by (auto split: bind_result.splits)
    from fresh True have "c \<notin> set cs"
      by simp
    with tail have "stored c = (p(c := v)) c"
      by (rule bind_columns_later)
    with here show ?thesis by simp
  next
    case False
    with Cons.prems(3) have mem: "c \<in> set cs" by simp
    from Cons.prems(1) obtain p' where
      tail: "bind_columns E written cs p' = Inr stored" and same: "p' c = p c"
      using False by (auto split: if_splits bind_result.splits)
    from Cons.IH [OF tail dist mem Cons.prems(4)] same show ?thesis by simp
  qed
qed

lemma flush_null_rejected:
  assumes "p c = VNone" and "c \<in> set not_null_columns" and "written c"
    and "db_bind E c VNone = Bound VNone"
  shows "\<exists>e. flush_patient E written others p = Inl e \<and> session_after e = Inactive"
proof (cases "bind_columns E written patient_columns p")
  case (Inl e)
  then have "e = StatementError \<or> e = OverflowError"
    by (rule bind_columns_errors)
  with Inl show ?thesis
    by (auto simp: flush_patient_def session_after_def)
next
  case (Inr stored)
  have dist: "distinct patient_columns"
    by (simp add: patient_columns_def)
  from assms(2) have mem: "c \<in> set patient_columns"
    by (auto simp: not_null_columns_def patient_columns_def)
  from Inr dist mem assms(3) have "db_bind E c (p c) = Bound (stored c)"
    by (rule bind_columns_value)
  with assms(1,4) have "stored c = VNone"
    by simp
  with assms(2) have "list_ex (\<lambda>c. stored c = VNone) not_null_columns"
    by (auto simp: list_ex_iff)
  with Inr show ?thesis
    by (simp add: flush_patient_def session_after_def)
qed

lemma null_ever_married_rejected:
  assumes "pd ''gender'' = Some (VStr g)" "pd ''age'' = Some (VInt a)"
    "pd ''hypertension'' = Some (VInt h)" "pd ''heart_disease'' = Some (VInt hdis)"
    "pd ''ever_married'' = Some VNone" "pd ''work_type'' = Some (VStr w)"
    "pd ''Residence_type'' = Some (VStr rt)" "pd ''avg_glucose_level'' = Some (VFloat gl)"
    "pd ''bmi'' = Some (VFloat b)" "pd ''smoking_status'' = Some (VStr s)"
    "pd ''stroke'' = Some (VInt sk)"
  shows "\<exists>e. create_patient demo_env False now tbl
                (pd(''created_by'' \<mapsto> VInt uid, ''assigned_doctor_id'' \<mapsto> VNone)) = Inl e
             \<and> session_after e = Inactive"
proof -
  let ?pd = "pd(''created_by'' \<mapsto> VInt uid, ''assigned_doctor_id'' \<mapsto> VNone)"
  let ?row = "row_of
       ([(''gender'', VStr g), (''age'', VInt a), (''hypertension'', VInt h),
         (''heart_disease'', VInt hdis), (''ever_married'', VNone),
         (''work_type'', VStr w), (''Residence_type'', VStr rt),
         (''avg_glucose_level'', VFloat gl), (''bmi'', VFloat b),
         (''smoking_status'', VStr s), (''stroke'', VInt sk)] @
        [(''stroke_risk'', VInt (spec_score ?pd)),
         (''risk_level'', VStr (get_risk_level (spec_score ?pd))),
         (''created_by'', dict_get ?pd ''created_by'' VNone),
         (''assigned_doctor_id'', dict_get ?pd ''assigned_doctor_id'' VNone),
         (''id'', VInt (next_id tbl)),
         (''created_at'', VTime now),
         (''updated_at'', VTime now)])"
  have risk: "calculate_stroke_risk ?pd = Inr (spec_score ?pd)"
    by (rule calculate_stroke_risk_refines) (simp add: numeric_fields_def assms)
  have items: "dict_items ?pd
        [''gender'', ''age'', ''hypertension'', ''heart_disease'', ''ever_married'',
         ''work_type'', ''Residence_type'', ''avg_glucose_level'', ''bmi'',
         ''smoking_status'', ''stroke'']
      = Inr [(''gender'', VStr g), (''age'', VInt a), (''hypertension'', VInt h),
             (''heart_disease'', VInt hdis), (''ever_married'', VNone),
             (''work_type'', VStr w), (''Residence_type'', VStr rt),
             (''avg_glucose_level'', VFloat gl), (''bmi'', VFloat b),
             (''smoking_status'', VStr s), (''stroke'', VInt sk)]"
    using assms by (simp add: dict_item_def)
  have unfolded: "create_patient demo_env False now tbl ?pd
      = (case flush_patient demo_env (\<lambda>c. True) tbl ?row of
           Inl e \<Rightarrow> Inl e
         | Inr stored \<Rightarrow> Inr (stored ''id'', tbl @ [stored]))"
    by (simp only: create_patient_def use_mongodb_def PatientRecordMongo_is_connected_def
        create_patient_sqlite_def risk items Let_def simp_thms if_False sum.case)
  have "?row ''ever_married'' = VNone"
    by (simp add: row_of_def)
  moreover have "''ever_married'' \<in> set not_null_columns"
    by (simp add: not_null_columns_def)
  moreover have "db_bind demo_env ''ever_married'' VNone = Bound VNone"
    by (simp add: demo_env_def demo_bind_def)
  ultimately obtain e where
    "flush_patient demo_env (\<lambda>c. True) tbl ?row = Inl e" "session_after e = Inactive"
    using flush_null_rejected [of ?row "''ever_married''" "\<lambda>c. True" demo_env tbl]
    by auto
  with unfolded show ?thesis
    by simp
qed


text \<open>
  C9 (the code departs from the claim). The request below passes every check of
  the route. The user is committed; the patient insert then fails in the flush,
  because \<open>ever_married\<close> is \<open>null\<close> and the column is \<open>nullable=False\<close>. The
  handler calls \<open>db.session.delete(user)\<close> and \<open>db.session.commit()\<close> without
  \<open>db.session.rollback()\<close>, so that commit raises; the outer handler answers 500 and
  the new identity stays stored without a patient record.
\<close>

theorem self_register_leaves_orphan:
  "fst (self_register_patient demo_env False 700 clinic erin_request)
     = message ''Internal server error'' 500
   \<and> map username (users (snd (self_register_patient demo_env False 700 clinic erin_request)))
     = [''alice'', ''carol'', ''erin'']
   \<and> length (patients (snd (self_register_patient demo_env False 700 clinic erin_request)))
     = length (patients clinic)
   \<and> find_by_username clinic ''erin'' = None"
proof -
  from erin_checks obtain reg where
    go: "self_register_checks demo_env clinic erin_request = Go reg"
    and who: "reg_username reg = ''erin''" "reg_email reg = ''erin@example.org''"
    and payload: "reg_patient reg ''gender'' = Some (VStr ''Female'')"
      "reg_patient reg ''age'' = Some (VInt 41)"
      "reg_patient reg ''hypertension'' = Some (VInt 0)"
      "reg_patient reg ''heart_disease'' = Some (VInt 0)"
      "reg_patient reg ''ever_married'' = Some VNone"
      "reg_patient reg ''work_type'' = Some (VStr ''Private'')"
      "reg_patient reg ''Residence_type'' = Some (VStr ''Urban'')"
      "reg_patient reg ''avg_glucose_level'' = Some (VFloat 88)"
      "reg_patient reg ''bmi'' = Some (VFloat 24)"
      "reg_patient reg ''smoking_status'' = Some (VStr ''Never smoked'')"
      "reg_patient reg ''stroke'' = Some (VInt 0)"
    by blast
  from null_ever_married_rejected [OF payload, where now = 700 and tbl = "patients clinic"
      and uid = "next_user_id (users clinic)"]
  obtain e where
    rejected: "create_patient demo_env False 700 (patients clinic)
        ((reg_patient reg)(''created_by'' \<mapsto> VInt (next_user_id (users clinic)),
                           ''assigned_doctor_id'' \<mapsto> VNone)) = Inl e"
    and inactive: "session_after e = Inactive"
    by blast
  have new: "find_by_username clinic ''erin'' = None"
    by (simp add: find_by_username_def clinic_def alice_def carol_def)
  have stored: "\<And>u. username u = ''erin'' \<Longrightarrow> email u = ''erin@example.org'' \<Longrightarrow>
      flush_user (users clinic) u = Inr ()"
    by (simp add: flush_user_def clinic_def alice_def carol_def)
  have names: "map username (users clinic) = [''alice'', ''carol'']"
    by (simp add: clinic_def alice_def carol_def)
  show ?thesis
    by (simp add: self_register_patient_def go Let_def who stored rejected inactive
        delete_user_commit_def logger_error_def message_def names new)
qed

section \<open>Appointments: the date rule and cancelling\<close>








lemma map_of_doc_set:
  "map_of (doc_set k v d) k' = (if k' = k then Some v else map_of d k')"
  by (induction d) auto

lemma doc_set_same: "map_of d k = Some v \<Longrightarrow> doc_set k v d = d"
  by (induction d) (auto split: if_splits)

lemma doc_set_twice: "doc_set k v' (doc_set k v d) = doc_set k v' d"
  by (induction d) auto

lemma cancel_update:
  "set_fields d (set_fields [(''status'', VStr ''cancelled'')] [(''updated_at'', VTime t)])
     = doc_set ''updated_at'' (VTime t) (doc_set ''status'' (VStr ''cancelled'') d)"
  by (simp add: set_fields_def)

lemma cancel_update_again:
  "set_fields (doc_set ''updated_at'' (VTime t1) (doc_set ''status'' (VStr ''cancelled'') d))
       (set_fields [(''status'', VStr ''cancelled'')] [(''updated_at'', VTime t2)])
     = doc_set ''updated_at'' (VTime t2)
         (doc_set ''updated_at'' (VTime t1) (doc_set ''status'' (VStr ''cancelled'') d))"
proof -
  have "map_of (doc_set ''updated_at'' (VTime t1) (doc_set ''status'' (VStr ''cancelled'') d))
          ''status'' = Some (VStr ''cancelled'')"
    by (simp add: map_of_doc_set)
  then show ?thesis
    by (simp only: cancel_update doc_set_same)
qed

lemma find_one_update_one:
  "find_one (snd (update_one oid update coll)) i
     = (if i = oid then map_option (\<lambda>d. set_fields d update) (find_one coll oid)
        else find_one coll i)"
  by (induction coll) (auto simp: find_one_def split: prod.split)

lemma modified_count_update_one:
  "find_one coll oid = Some d \<Longrightarrow>
     fst (update_one oid update coll) = (if set_fields d update = d then 0 else 1)"
  by (induction coll) (auto simp: find_one_def split: prod.split if_splits)

lemma update_one_again:
  assumes "\<And>d. set_fields (set_fields d update1) update2
               = set_fields (set_fields d update1) update3"
  shows "snd (update_one oid update2 (snd (update_one oid update1 coll)))
       = snd (update_one oid update3 (snd (update_one oid update1 coll)))"
  by (induction coll) (auto simp: assms split: prod.split)

lemma access_denied_cong:
  assumes "map_of a ''patient_id'' = map_of b ''patient_id''"
    and "map_of a ''doctor_id'' = map_of b ''doctor_id''"
  shows "access_denied E u a = access_denied E u b"
  by (simp add: access_denied_def not_owner_def dict_item_def assms)


lemma touched_iff:
  assumes "map_of d1 ''updated_at'' = Some (VTime t1)"
  shows "(doc_set ''updated_at'' (VTime t2) d1 = d1) = (t2 = t1)"
proof
  assume "doc_set ''updated_at'' (VTime t2) d1 = d1"
  then have "map_of (doc_set ''updated_at'' (VTime t2) d1) ''updated_at''
               = map_of d1 ''updated_at''"
    by simp
  with assms show "t2 = t1"
    by (simp add: map_of_doc_set)
next
  assume "t2 = t1"
  with assms show "doc_set ''updated_at'' (VTime t2) d1 = d1"
    by (simp add: doc_set_same)
qed

text \<open>
  C6 (amended). Cancelling a stored appointment sets its status to \<open>cancelled\<close> and
  its \<open>updated_at\<close> to the time of the call. Cancelling it again keeps the status
  and changes the collection exactly as setting \<open>updated_at\<close> alone to the time of
  the second call does; the service's result for the second call is true exactly
  when the two times differ. For a user who passes the ownership test the route
  answers 200 ``Appointment cancelled successfully'' both times.
\<close>

theorem cancel_twice:
  assumes "object_id E aid" and "find_one coll aid = Some d"
  shows "\<exists>coll1 coll2 d1.
      cancel_appointment E t1 (Some coll) aid = (d1 \<noteq> d, Some coll1)
    \<and> cancel_appointment E t2 (Some coll1) aid = (t2 \<noteq> t1, Some coll2)
    \<and> find_one coll1 aid = Some d1
    \<and> map_of d1 ''status'' = Some (VStr ''cancelled'')
    \<and> map_of d1 ''updated_at'' = Some (VTime t1)
    \<and> find_one coll2 aid = Some (doc_set ''updated_at'' (VTime t2) d1)
    \<and> coll2 = snd (update_one aid [(''updated_at'', VTime t2)] coll1)
    \<and> (access_denied E u (doc_set ''id'' (VStr aid) d) = Inr False \<longrightarrow>
         cancel_route E t1 u (Some coll) aid
           = (message ''Appointment cancelled successfully'' 200, Some coll1)
       \<and> cancel_route E t2 u (Some coll1) aid
           = (message ''Appointment cancelled successfully'' 200, Some coll2))"
proof -
  let ?upd = "\<lambda>t. set_fields [(''status'', VStr ''cancelled'')] [(''updated_at'', VTime t)]"
  define d1 where "d1 = doc_set ''updated_at'' (VTime t1)
                          (doc_set ''status'' (VStr ''cancelled'') d)"
  define coll1 where "coll1 = snd (update_one aid (?upd t1) coll)"
  define coll2 where "coll2 = snd (update_one aid (?upd t2) coll1)"
  have d1_eq: "set_fields d (?upd t1) = d1"
    by (simp only: cancel_update d1_def)
  have d2_eq: "set_fields d1 (?upd t2) = doc_set ''updated_at'' (VTime t2) d1"
    unfolding d1_def by (rule cancel_update_again)
  have status: "map_of d1 ''status'' = Some (VStr ''cancelled'')"
    and stamp: "map_of d1 ''updated_at'' = Some (VTime t1)"
    by (simp_all add: d1_def map_of_doc_set)
  have find1: "find_one coll1 aid = Some d1"
    by (simp add: coll1_def find_one_update_one assms(2) d1_eq)
  have find2: "find_one coll2 aid = Some (doc_set ''updated_at'' (VTime t2) d1)"
    by (simp add: coll2_def find_one_update_one find1 d2_eq)
  have count1: "fst (update_one aid (?upd t1) coll) = (if d1 = d then 0 else 1)"
    by (simp only: modified_count_update_one [OF assms(2)] d1_eq)
  have count2: "fst (update_one aid (?upd t2) coll1) = (if t2 = t1 then 0 else 1)"
    by (simp only: modified_count_update_one [OF find1] d2_eq touched_iff [OF stamp])
  have first: "cancel_appointment E t1 (Some coll) aid = (d1 \<noteq> d, Some coll1)"
    by (simp add: cancel_appointment_def update_appointment_def assms(1) coll1_def
        case_prod_beta count1)
  have second: "cancel_appointment E t2 (Some coll1) aid = (t2 \<noteq> t1, Some coll2)"
    by (simp add: cancel_appointment_def update_appointment_def assms(1) coll2_def
        case_prod_beta count2)
  have "\<And>x. set_fields (set_fields x (?upd t1)) (?upd t2)
            = set_fields (set_fields x (?upd t1)) [(''updated_at'', VTime t2)]"
    by (simp add: cancel_update cancel_update_again [unfolded cancel_update] set_fields_def)
  then have touch: "coll2 = snd (update_one aid [(''updated_at'', VTime t2)] coll1)"
    unfolding coll2_def coll1_def by (rule update_one_again)
  have routes: "cancel_route E t1 u (Some coll) aid
           = (message ''Appointment cancelled successfully'' 200, Some coll1)
       \<and> cancel_route E t2 u (Some coll1) aid
           = (message ''Appointment cancelled successfully'' 200, Some coll2)"
    if allowed: "access_denied E u (doc_set ''id'' (VStr aid) d) = Inr False"
  proof -
    have "access_denied E u (doc_set ''id'' (VStr aid) d1)
            = access_denied E u (doc_set ''id'' (VStr aid) d)"
      by (rule access_denied_cong) (simp_all add: d1_def map_of_doc_set)
    with allowed have allowed1: "access_denied E u (doc_set ''id'' (VStr aid) d1) = Inr False"
      by simp
    have get0: "get_appointment E (Some coll) aid = Some (doc_set ''id'' (VStr aid) d)"
      by (simp add: get_appointment_def assms)
    have get1: "get_appointment E (Some coll1) aid = Some (doc_set ''id'' (VStr aid) d1)"
      by (simp add: get_appointment_def assms(1) find1)
    show ?thesis
      by (simp add: cancel_route_def get0 get1 allowed allowed1 first second)
  qed
  from first second find1 status stamp find2 touch routes show ?thesis
    by blast
qed

theorem cancel_twice_witness:
  "fst (cancel_route demo_env 1000 bob bookings ''65a1b2c3d4e5f60718293a4b'')
     = message ''Appointment cancelled successfully'' 200
   \<and> fst (cancel_route demo_env 2000 bob
            (snd (cancel_route demo_env 1000 bob bookings ''65a1b2c3d4e5f60718293a4b''))
            ''65a1b2c3d4e5f60718293a4b'')
     = message ''Appointment cancelled successfully'' 200
   \<and> fst (cancel_appointment demo_env 1000
            (snd (cancel_appointment demo_env 1000 bookings ''65a1b2c3d4e5f60718293a4b''))
            ''65a1b2c3d4e5f60718293a4b'') = False
   \<and> fst (cancel_appointment demo_env 2000
            (snd (cancel_appointment demo_env 1000 bookings ''65a1b2c3d4e5f60718293a4b''))
            ''65a1b2c3d4e5f60718293a4b'') = True"
proof -
  let ?aid = "''65a1b2c3d4e5f60718293a4b''"
  have oid: "object_id demo_env ?aid"
    by (simp add: demo_env_def)
  have stored: "find_one [(?aid, checkup)] ?aid = Some checkup"
    by (simp add: find_one_def)
  have allowed: "access_denied demo_env bob (doc_set ''id'' (VStr ?aid) checkup) = Inr False"
    by (simp add: access_denied_def not_owner_def dict_item_def checkup_def bob_def
        demo_env_def)
  from cancel_twice [OF oid stored, of 1000 2000 bob] allowed
  have later: "fst (cancel_route demo_env 1000 bob bookings ?aid)
        = message ''Appointment cancelled successfully'' 200
      \<and> fst (cancel_route demo_env 2000 bob
            (snd (cancel_route demo_env 1000 bob bookings ?aid)) ?aid)
        = message ''Appointment cancelled successfully'' 200
      \<and> fst (cancel_appointment demo_env 2000
            (snd (cancel_appointment demo_env 1000 bookings ?aid)) ?aid) = True"
    by (auto simp: bookings_def)
  from cancel_twice [OF oid stored, of 1000 1000 bob]
  have same: "fst (cancel_appointment demo_env 1000
            (snd (cancel_appointment demo_env 1000 bookings ?aid)) ?aid) = False"
    by (auto simp: bookings_def)
  from later same show ?thesis
    by simp
qed

text \<open>
  The second cancel is not a no-op: one second after the first it leaves another
  collection than the first did, through the service and through the route.
\<close>

theorem cancel_twice_changes_state:
  "snd (cancel_appointment demo_env 2000
          (snd (cancel_appointment demo_env 1000 bookings ''65a1b2c3d4e5f60718293a4b''))
          ''65a1b2c3d4e5f60718293a4b'')
     \<noteq> snd (cancel_appointment demo_env 1000 bookings ''65a1b2c3d4e5f60718293a4b'')
   \<and> snd (cancel_route demo_env 2000 bob
          (snd (cancel_route demo_env 1000 bob bookings ''65a1b2c3d4e5f60718293a4b''))
          ''65a1b2c3d4e5f60718293a4b'')
     \<noteq> snd (cancel_route demo_env 1000 bob bookings ''65a1b2c3d4e5f60718293a4b'')"
proof -
  let ?aid = "''65a1b2c3d4e5f60718293a4b''"
  let ?once = "Some [(?aid,
     [(''patient_id'', VStr ''3''), (''doctor_id'', VStr ''1''),
      (''appointment_date'', VStr ''2025-01-11''), (''appointment_time'', VStr ''09:30''),
      (''reason'', VStr ''Check-up''), (''urgency'', VStr ''routine''),
      (''status'', VStr ''cancelled''), (''notes'', VNone),
      (''created_at'', VTime 500), (''updated_at'', VTime 1000)])]"
  let ?twice = "Some [(?aid,
     [(''patient_id'', VStr ''3''), (''doctor_id'', VStr ''1''),
      (''appointment_date'', VStr ''2025-01-11''), (''appointment_time'', VStr ''09:30''),
      (''reason'', VStr ''Check-up''), (''urgency'', VStr ''routine''),
      (''status'', VStr ''cancelled''), (''notes'', VNone),
      (''created_at'', VTime 500), (''updated_at'', VTime 2000)])]"
  have oid: "object_id demo_env ?aid"
    by (simp add: demo_env_def)
  have once: "snd (cancel_appointment demo_env 1000 bookings ?aid) = ?once"
    by (simp add: cancel_appointment_def update_appointment_def oid bookings_def checkup_def
        set_fields_def)
  have twice: "snd (cancel_appointment demo_env 2000 ?once ?aid) = ?twice"
    by (simp add: cancel_appointment_def update_appointment_def oid set_fields_def)
  have route1: "snd (cancel_route demo_env 1000 bob bookings ?aid) = ?once"
    unfolding cancel_route_def once
    by (simp add: get_appointment_def oid bookings_def find_one_def checkup_def
        access_denied_def not_owner_def dict_item_def bob_def)
       (simp add: demo_env_def)
  have route2: "snd (cancel_route demo_env 2000 bob ?once ?aid) = ?twice"
    unfolding cancel_route_def twice
    by (simp add: get_appointment_def oid find_one_def access_denied_def not_owner_def
        dict_item_def bob_def)
       (simp add: demo_env_def)
  show ?thesis
    unfolding route1 once route2 twice by simp
qed

end
